theory Spec2Isabelle
  imports Complex_Main
begin

section \<open>Python values handled by the OpenAI-compatible server\<close>

text \<open>
  The server of \<^verbatim>\<open>AI/src/serve_openai.py\<close> reads a JSON body, looks a few keys up and
  answers with a JSON document or with an HTTP error. A Python \<^verbatim>\<open>str\<close> is a sequence of
  Unicode code points, so it is modelled as a list of code points; the literals of the
  source are written with \<open>lit\<close>.
\<close>

type_synonym codepoint = nat
type_synonym pystr = "codepoint list"

definition lit :: "string \<Rightarrow> pystr" where
  "lit s = map of_char s"

text \<open>
  A Python \<^verbatim>\<open>float\<close> as \<^verbatim>\<open>json.loads\<close> produces it. The server never computes with
  one: only its truth value is read (\<open>0.0\<close> and \<open>-0.0\<close> are false, every other float,
  \<^verbatim>\<open>nan\<close> included, is true).
\<close>

datatype pyfloat = Finite real | PosInfinity | NegInfinity | NaN

text \<open>
  The result of \<^verbatim>\<open>json.loads\<close>. A \<^verbatim>\<open>dict\<close> is kept as the list of its items (its
  keys are distinct, so the order plays no role in a lookup).
\<close>

datatype json =
    JNull
  | JBool bool
  | JInt int
  | JFloat pyfloat
  | JString pystr
  | JList "json list"
  | JObject "(pystr \<times> json) list"

text \<open>\<^verbatim>\<open>type(v).__name__\<close>, as it appears in the message of an exception.\<close>

fun type_name :: "json \<Rightarrow> string" where
  "type_name JNull = ''NoneType''"
| "type_name (JBool b) = ''bool''"
| "type_name (JInt i) = ''int''"
| "type_name (JFloat f) = ''float''"
| "type_name (JString s) = ''str''"
| "type_name (JList xs) = ''list''"
| "type_name (JObject d) = ''dict''"

text \<open>Python's truth value of an object: what \<^verbatim>\<open>if not v\<close> tests.\<close>

fun truthy :: "json \<Rightarrow> bool" where
  "truthy JNull = False"
| "truthy (JBool b) = b"
| "truthy (JInt i) = (i \<noteq> 0)"
| "truthy (JFloat f) = (f \<noteq> Finite 0)"
| "truthy (JString s) = (s \<noteq> [])"
| "truthy (JList xs) = (xs \<noteq> [])"
| "truthy (JObject d) = (d \<noteq> [])"

text \<open>\<^verbatim>\<open>d.get(key, default)\<close>.\<close>

definition dict_get :: "(pystr \<times> json) list \<Rightarrow> pystr \<Rightarrow> json \<Rightarrow> json" where
  "dict_get d key dflt = (case map_of d key of None \<Rightarrow> dflt | Some v \<Rightarrow> v)"

text \<open>
  The exceptions the handlers can meet. \<open>AttributeError t a\<close> is
  \<^verbatim>\<open>'t' object has no attribute 'a'\<close>, \<open>TypeError t\<close> is \<^verbatim>\<open>'t' object is not iterable\<close>,
  and \<open>ValueError m\<close> stands for a body that could not be read as JSON (a bad
  \<^verbatim>\<open>Content-Length\<close>, bytes that are not UTF-8, text that is not JSON).
\<close>

datatype py_exn =
    AttributeError string string
  | TypeError string
  | ValueError pystr

subsection \<open>\<^verbatim>\<open>str.split()\<close> and \<^verbatim>\<open>str.join\<close>\<close>

text \<open>The code points for which \<^verbatim>\<open>str.isspace\<close> holds.\<close>

definition isspace :: "codepoint \<Rightarrow> bool" where
  "isspace c =
     (c \<in> set [9, 10, 11, 12, 13, 28, 29, 30, 31, 32, 133, 160, 5760,
                8232, 8233, 8239, 8287, 12288]
      \<or> (8192 \<le> c \<and> c \<le> 8202))"

text \<open>
  \<^verbatim>\<open>s.split()\<close> with no separator: the maximal runs of characters that are not
  whitespace. \<open>split_from w s\<close> scans \<open>s\<close> with the word \<open>w\<close> read so far.
\<close>

fun split_from :: "pystr \<Rightarrow> pystr \<Rightarrow> pystr list" where
  "split_from w [] = (if w = [] then [] else [w])"
| "split_from w (c # cs) =
     (if isspace c
      then (if w = [] then split_from [] cs else w # split_from [] cs)
      else split_from (w @ [c]) cs)"

definition py_split :: "pystr \<Rightarrow> pystr list" where
  "py_split s = split_from [] s"

text \<open>\<^verbatim>\<open>sep.join(parts)\<close>.\<close>

fun join :: "pystr \<Rightarrow> pystr list \<Rightarrow> pystr" where
  "join sep [] = []"
| "join sep [x] = x"
| "join sep (x # y # zs) = x @ sep @ join sep (y # zs)"

section \<open>The handler\<close>

text \<open>
  The class attributes of \<^verbatim>\<open>OpenAIHandler\<close>. A model runner is what
  \<^verbatim>\<open>ModelRunnerCpp.from_dir(engine_dir)\<close> would build.
\<close>

datatype trt_runner = ModelRunnerCpp pystr

record handler =
  model_runner :: "trt_runner option"
  model_name :: pystr

definition OpenAIHandler :: handler where
  "OpenAIHandler = \<lparr>model_runner = None, model_name = lit ''gpt-oss-20b''\<rparr>"

text \<open>
  What a request reads from the interpreter and the system: the hexadecimal digits of
  \<^verbatim>\<open>uuid.uuid4()\<close>, \<^verbatim>\<open>int(time.time())\<close>, and Python's \<^verbatim>\<open>str()\<close> of a JSON value that is
  not a string (the text an f-string puts for it).
\<close>

record runtime =
  uuid4_hex :: pystr
  time_now :: int
  str_of :: "json \<Rightarrow> pystr"

text \<open>The text an f-string puts for \<^verbatim>\<open>{v}\<close>: a string stands for itself.\<close>

definition format_value :: "runtime \<Rightarrow> json \<Rightarrow> pystr" where
  "format_value rt v = (case v of JString s \<Rightarrow> s | _ \<Rightarrow> str_of rt v)"

text \<open>
  An answer: \<^verbatim>\<open>send_json_response(data, status)\<close> or \<^verbatim>\<open>send_error(code, message)\<close>. The
  message of the 500 answer is \<^verbatim>\<open>f"Internal server error: {str(e)}"\<close>, kept as the
  exception it embeds.
\<close>

datatype err_text = Message pystr | InternalServerError py_exn

datatype response = JsonResponse nat json | SendError nat err_text

definition send_json_response :: "json \<Rightarrow> response" where
  "send_json_response data = JsonResponse 200 data"

subsection \<open>GET endpoints\<close>

definition handle_root :: "handler \<Rightarrow> response" where
  "handle_root h = send_json_response (JObject
     [(lit ''name'', JString (lit ''TensorRT-LLM OpenAI-Compatible API'')),
      (lit ''version'', JString (lit ''1.0.0'')),
      (lit ''status'', JString (lit ''running'')),
      (lit ''endpoints'', JList
         [JString (lit ''GET /v1/models''),
          JString (lit ''POST /v1/completions''),
          JString (lit ''POST /v1/chat/completions''),
          JString (lit ''GET /health'')])])"

definition handle_health :: "handler \<Rightarrow> response" where
  "handle_health h = send_json_response (JObject
     [(lit ''status'', JString (lit ''healthy'')),
      (lit ''model_loaded'', JBool (model_runner h \<noteq> None))])"

definition handle_list_models :: "handler \<Rightarrow> runtime \<Rightarrow> response" where
  "handle_list_models h rt = send_json_response (JObject
     [(lit ''object'', JString (lit ''list'')),
      (lit ''data'', JList
         [JObject
            [(lit ''id'', JString (model_name h)),
             (lit ''object'', JString (lit ''model'')),
             (lit ''created'', JInt (time_now rt)),
             (lit ''owned_by'', JString (lit ''tensorrt-llm'')),
             (lit ''permission'', JList []),
             (lit ''root'', JString (model_name h)),
             (lit ''parent'', JNull)]])])"

subsection \<open>Text generation\<close>

text \<open>
  \<^verbatim>\<open>generate_text\<close> is given a string by both callers that reach the answer (a prompt
  that is not a string fails later, at \<^verbatim>\<open>prompt.split()\<close>); slicing a string never
  raises, so its \<^verbatim>\<open>except\<close> branch is not taken.
\<close>

definition generate_text :: "pystr \<Rightarrow> json \<Rightarrow> json \<Rightarrow> json \<Rightarrow> pystr" where
  "generate_text prompt max_tokens temperature top_p =
     lit ''[Generated response for: '' @ take 50 prompt @ lit ''...]''"

definition placeholder_text :: pystr where
  "placeholder_text =
     lit ''[Model not loaded] This is a placeholder response. Please load a model to get actual completions.''"

text \<open>Lines 117 to 121 and 168 to 171: the same choice in both handlers.\<close>

definition completion_text :: "handler \<Rightarrow> pystr \<Rightarrow> json \<Rightarrow> json \<Rightarrow> json \<Rightarrow> pystr" where
  "completion_text h prompt max_tokens temperature top_p =
     (if model_runner h = None then placeholder_text
      else generate_text prompt max_tokens temperature top_p)"

definition usage :: "pystr \<Rightarrow> pystr \<Rightarrow> json" where
  "usage prompt text = JObject
     [(lit ''prompt_tokens'', JInt (int (length (py_split prompt)))),
      (lit ''completion_tokens'', JInt (int (length (py_split text)))),
      (lit ''total_tokens'',
         JInt (int (length (py_split prompt)) + int (length (py_split text))))]"

subsection \<open>POST /v1/completions\<close>

text \<open>The locals read from the body: prompt, max_tokens, temperature, top_p, n.\<close>

definition completion_params ::
  "(pystr \<times> json) list \<Rightarrow> json \<times> json \<times> json \<times> json \<times> json" where
  "completion_params d =
     (dict_get d (lit ''prompt'') (JString []),
      dict_get d (lit ''max_tokens'') (JInt 100),
      dict_get d (lit ''temperature'') (JFloat (Finite 1)),
      dict_get d (lit ''top_p'') (JFloat (Finite 1)),
      dict_get d (lit ''n'') (JInt 1))"

text \<open>The \<^verbatim>\<open>response\<close> dict of lines 123 to 141.\<close>

definition completion_response :: "handler \<Rightarrow> runtime \<Rightarrow> pystr \<Rightarrow> pystr \<Rightarrow> json" where
  "completion_response h rt prompt text = JObject
     [(lit ''id'', JString (lit ''cmpl-'' @ uuid4_hex rt)),
      (lit ''object'', JString (lit ''text_completion'')),
      (lit ''created'', JInt (time_now rt)),
      (lit ''model'', JString (model_name h)),
      (lit ''choices'', JList
         [JObject
            [(lit ''text'', JString text),
             (lit ''index'', JInt 0),
             (lit ''logprobs'', JNull),
             (lit ''finish_reason'', JString (lit ''length''))]]),
      (lit ''usage'', usage prompt text)]"

text \<open>
  The body of the \<^verbatim>\<open>try\<close> block, from the parsed request on: \<open>Inl\<close> is an exception
  on its way to the \<^verbatim>\<open>except\<close> clause. A body that is not a JSON object has no
  \<^verbatim>\<open>get\<close>; a prompt that is true but not a string has no \<^verbatim>\<open>split\<close>.
\<close>

definition completions_try ::
  "handler \<Rightarrow> runtime \<Rightarrow> py_exn + json \<Rightarrow> py_exn + response" where
  "completions_try h rt parsed =
     (case parsed of
        Inl e \<Rightarrow> Inl e
      | Inr request_data \<Rightarrow>
          (case request_data of
             JObject d \<Rightarrow>
               (case completion_params d of
                  (prompt, max_tokens, temperature, top_p, n) \<Rightarrow>
                    if \<not> truthy prompt
                    then Inr (SendError 400 (Message (lit ''Missing 'prompt' field'')))
                    else
                      (case prompt of
                         JString p \<Rightarrow>
                           (let text = completion_text h p max_tokens temperature top_p
                            in Inr (send_json_response (completion_response h rt p text)))
                       | _ \<Rightarrow> Inl (AttributeError (type_name prompt) ''split'')))
           | _ \<Rightarrow> Inl (AttributeError (type_name request_data) ''get'')))"

definition handle_completions :: "handler \<Rightarrow> runtime \<Rightarrow> py_exn + json \<Rightarrow> response" where
  "handle_completions h rt parsed =
     (case completions_try h rt parsed of
        Inl e \<Rightarrow> SendError 500 (InternalServerError e)
      | Inr r \<Rightarrow> r)"

subsection \<open>POST /v1/chat/completions\<close>

text \<open>
  \<^verbatim>\<open>for msg in messages\<close>: a list gives its elements, a string its characters, a dict
  its keys; a number or a boolean is not iterable.
\<close>

fun py_iter :: "json \<Rightarrow> py_exn + json list" where
  "py_iter (JList xs) = Inr xs"
| "py_iter (JString s) = Inr (map (\<lambda>c. JString [c]) s)"
| "py_iter (JObject d) = Inr (map (\<lambda>kv. JString (fst kv)) d)"
| "py_iter v = Inl (TypeError (type_name v))"

text \<open>
  The loop of \<^verbatim>\<open>messages_to_prompt\<close>, with \<^verbatim>\<open>prompt_parts\<close> as the accumulator. A
  message that is not a dict has no \<^verbatim>\<open>get\<close>.
\<close>

fun prompt_parts_loop :: "runtime \<Rightarrow> pystr list \<Rightarrow> json list \<Rightarrow> py_exn + pystr list" where
  "prompt_parts_loop rt prompt_parts [] = Inr prompt_parts"
| "prompt_parts_loop rt prompt_parts (msg # rest) =
     (case msg of
        JObject d \<Rightarrow>
          (let role = dict_get d (lit ''role'') (JString (lit ''user''));
               content = dict_get d (lit ''content'') (JString [])
           in if role = JString (lit ''system'')
              then prompt_parts_loop rt
                     (prompt_parts @ [lit ''System: '' @ format_value rt content]) rest
              else if role = JString (lit ''user'')
              then prompt_parts_loop rt
                     (prompt_parts @ [lit ''User: '' @ format_value rt content]) rest
              else if role = JString (lit ''assistant'')
              then prompt_parts_loop rt
                     (prompt_parts @ [lit ''Assistant: '' @ format_value rt content]) rest
              else prompt_parts_loop rt prompt_parts rest)
      | _ \<Rightarrow> Inl (AttributeError (type_name msg) ''get''))"

definition messages_to_prompt :: "runtime \<Rightarrow> json \<Rightarrow> py_exn + pystr" where
  "messages_to_prompt rt messages =
     (case py_iter messages of
        Inl e \<Rightarrow> Inl e
      | Inr msgs \<Rightarrow>
          (case prompt_parts_loop rt [] msgs of
             Inl e \<Rightarrow> Inl e
           | Inr prompt_parts \<Rightarrow>
               Inr (join [10] (prompt_parts @ [lit ''Assistant:'']))))"

text \<open>The locals read from the body: messages, max_tokens, temperature, top_p.\<close>

definition chat_params :: "(pystr \<times> json) list \<Rightarrow> json \<times> json \<times> json \<times> json" where
  "chat_params d =
     (dict_get d (lit ''messages'') (JList []),
      dict_get d (lit ''max_tokens'') (JInt 100),
      dict_get d (lit ''temperature'') (JFloat (Finite 1)),
      dict_get d (lit ''top_p'') (JFloat (Finite 1)))"

text \<open>The \<^verbatim>\<open>response\<close> dict of lines 173 to 193.\<close>

definition chat_completion_response :: "handler \<Rightarrow> runtime \<Rightarrow> pystr \<Rightarrow> pystr \<Rightarrow> json" where
  "chat_completion_response h rt prompt text = JObject
     [(lit ''id'', JString (lit ''chatcmpl-'' @ uuid4_hex rt)),
      (lit ''object'', JString (lit ''chat.completion'')),
      (lit ''created'', JInt (time_now rt)),
      (lit ''model'', JString (model_name h)),
      (lit ''choices'', JList
         [JObject
            [(lit ''index'', JInt 0),
             (lit ''message'', JObject
                [(lit ''role'', JString (lit ''assistant'')),
                 (lit ''content'', JString text)]),
             (lit ''finish_reason'', JString (lit ''length''))]]),
      (lit ''usage'', usage prompt text)]"

definition chat_completions_try ::
  "handler \<Rightarrow> runtime \<Rightarrow> py_exn + json \<Rightarrow> py_exn + response" where
  "chat_completions_try h rt parsed =
     (case parsed of
        Inl e \<Rightarrow> Inl e
      | Inr request_data \<Rightarrow>
          (case request_data of
             JObject d \<Rightarrow>
               (case chat_params d of
                  (messages, max_tokens, temperature, top_p) \<Rightarrow>
                    if \<not> truthy messages
                    then Inr (SendError 400 (Message (lit ''Missing 'messages' field'')))
                    else
                      (case messages_to_prompt rt messages of
                         Inl e \<Rightarrow> Inl e
                       | Inr prompt \<Rightarrow>
                           (let text = completion_text h prompt max_tokens temperature top_p
                            in Inr (send_json_response
                                      (chat_completion_response h rt prompt text)))))
           | _ \<Rightarrow> Inl (AttributeError (type_name request_data) ''get'')))"

definition handle_chat_completions ::
  "handler \<Rightarrow> runtime \<Rightarrow> py_exn + json \<Rightarrow> response" where
  "handle_chat_completions h rt parsed =
     (case chat_completions_try h rt parsed of
        Inl e \<Rightarrow> SendError 500 (InternalServerError e)
      | Inr r \<Rightarrow> r)"

subsection \<open>Routing and the server loop\<close>

text \<open>
  A request: the method, \<^verbatim>\<open>urlparse(self.path).path\<close> and, for a POST, what reading
  and parsing the body gave (lines 102 to 104 and 151 to 153).
\<close>

datatype request = GET pystr | POST pystr "py_exn + json"

definition do_GET :: "handler \<Rightarrow> runtime \<Rightarrow> pystr \<Rightarrow> response" where
  "do_GET h rt path =
     (if path = lit ''/v1/models'' then handle_list_models h rt
      else if path = lit ''/health'' then handle_health h
      else if path = lit ''/'' then handle_root h
      else SendError 404 (Message (lit ''Not Found'')))"

definition do_POST :: "handler \<Rightarrow> runtime \<Rightarrow> pystr \<Rightarrow> py_exn + json \<Rightarrow> response" where
  "do_POST h rt path parsed =
     (if path = lit ''/v1/completions'' then handle_completions h rt parsed
      else if path = lit ''/v1/chat/completions'' then handle_chat_completions h rt parsed
      else SendError 404 (Message (lit ''Not Found'')))"

fun dispatch :: "handler \<Rightarrow> runtime \<Rightarrow> request \<Rightarrow> response" where
  "dispatch h rt (GET path) = do_GET h rt path"
| "dispatch h rt (POST path parsed) = do_POST h rt path parsed"

text \<open>
  \<^verbatim>\<open>httpd.serve_forever()\<close> on the requests that arrive, one after the other. No
  handler assigns a class attribute, so each request leaves the handler state as it
  found it.
\<close>

fun serve_forever :: "handler \<Rightarrow> (runtime \<times> request) list \<Rightarrow> handler \<times> response list" where
  "serve_forever h [] = (h, [])"
| "serve_forever h ((rt, req) # rest) =
     (let r = dispatch h rt req;
          (h', rs) = serve_forever h rest
      in (h', r # rs))"

text \<open>
  \<^verbatim>\<open>run_server\<close>: the only statement that would set the model runner is a comment
  (line 254), so both branches of the test on the engine directory leave the state
  alone. \<open>path_exists\<close> is \<^verbatim>\<open>os.path.exists\<close>.
\<close>

record args =
  arg_host :: pystr
  arg_port :: int
  arg_engine_dir :: "pystr option"
  arg_model_dir :: "pystr option"
  arg_model_name :: pystr

definition run_server ::
  "handler \<Rightarrow> (pystr \<Rightarrow> bool) \<Rightarrow> pystr option \<Rightarrow> (runtime \<times> request) list
   \<Rightarrow> handler \<times> response list" where
  "run_server h path_exists engine_dir reqs =
     (let h' = (if (case engine_dir of None \<Rightarrow> False | Some d \<Rightarrow> d \<noteq> [] \<and> path_exists d)
                then h else h)
      in serve_forever h' reqs)"

text \<open>The command line with every option left at its default.\<close>

definition default_args :: args where
  "default_args =
     \<lparr>arg_host = lit ''0.0.0.0'', arg_port = 8000, arg_engine_dir = None,
      arg_model_dir = None, arg_model_name = lit ''gpt-oss-20b''\<rparr>"

definition main :: "args \<Rightarrow> (pystr \<Rightarrow> bool) \<Rightarrow> (runtime \<times> request) list
   \<Rightarrow> handler \<times> response list" where
  "main a path_exists reqs =
     run_server (OpenAIHandler\<lparr>model_name := arg_model_name a\<rparr>)
       path_exists (arg_engine_dir a) reqs"

subsection \<open>Reading an answer\<close>

text \<open>
  Access into a JSON answer, for stating what an answer contains: \<open>Key k\<close> is
  \<^verbatim>\<open>v[k]\<close> on a dict and \<open>Index i\<close> is \<^verbatim>\<open>v[i]\<close> on a list; \<open>None\<close> when there is no
  such member.
\<close>

datatype selector = Key pystr | Index nat

fun select :: "selector \<Rightarrow> json \<Rightarrow> json option" where
  "select (Key k) (JObject d) = map_of d k"
| "select (Index i) (JList xs) = (if i < length xs then Some (xs ! i) else None)"
| "select s v = None"

fun json_at :: "selector list \<Rightarrow> json \<Rightarrow> json option" where
  "json_at [] v = Some v"
| "json_at (s # ss) v = (case select s v of None \<Rightarrow> None | Some v' \<Rightarrow> json_at ss v')"

text \<open>
  A runtime for the examples: the nil UUID at time 0. No example formats a value that
  is not a string.
\<close>

definition sample_runtime :: runtime where
  "sample_runtime =
     \<lparr>uuid4_hex = lit ''00000000000000000000000000000000'', time_now = 0,
      str_of = (\<lambda>v. [])\<rparr>"

section \<open>The specification's notions\<close>

text \<open>
  The number of whitespace-separated words of a string, as the specification words
  it: one for each character that is not whitespace and starts the string or follows
  a whitespace character. \<open>inw\<close> tells whether the scan is inside a word.
\<close>

fun words_from :: "bool \<Rightarrow> pystr \<Rightarrow> nat" where
  "words_from inw [] = 0"
| "words_from inw (c # cs) =
     (if isspace c then words_from False cs
      else (if inw then 0 else 1) + words_from True cs)"

definition word_count :: "pystr \<Rightarrow> nat" where
  "word_count s = words_from False s"

text \<open>
  The flattened prompt as the specification words it: each message's content prefixed
  by its capitalized role label, joined by newlines, in the order of the messages,
  then a final line \<^verbatim>\<open>Assistant:\<close>.
\<close>

definition capitalize :: "pystr \<Rightarrow> pystr" where
  "capitalize s =
     (case s of [] \<Rightarrow> []
      | c # cs \<Rightarrow> (if 97 \<le> c \<and> c \<le> 122 then c - 32 else c) # cs)"

definition message_role :: "json \<Rightarrow> json option" where
  "message_role msg = (case msg of JObject d \<Rightarrow> map_of d (lit ''role'') | _ \<Rightarrow> None)"

definition message_content :: "runtime \<Rightarrow> json \<Rightarrow> pystr" where
  "message_content rt msg =
     (case msg of
        JObject d \<Rightarrow> format_value rt (dict_get d (lit ''content'') (JString []))
      | _ \<Rightarrow> [])"

definition labelled_line :: "runtime \<Rightarrow> json \<Rightarrow> pystr" where
  "labelled_line rt msg =
     (case message_role msg of
        Some (JString r) \<Rightarrow> capitalize r @ lit '': '' @ message_content rt msg
      | _ \<Rightarrow> [])"

definition flattened_prompt :: "runtime \<Rightarrow> json list \<Rightarrow> pystr" where
  "flattened_prompt rt msgs = join [10] (map (labelled_line rt) msgs @ [lit ''Assistant:''])"

text \<open>
  \<^verbatim>\<open>d.setdefault(key, value)\<close>: the request with a default supplied explicitly where
  the key is omitted.
\<close>

definition setdefault :: "pystr \<Rightarrow> json \<Rightarrow> (pystr \<times> json) list \<Rightarrow> (pystr \<times> json) list" where
  "setdefault key v d = (if map_of d key = None then d @ [(key, v)] else d)"

definition with_defaults :: "(pystr \<times> json) list \<Rightarrow> (pystr \<times> json) list" where
  "with_defaults d =
     setdefault (lit ''n'') (JInt 1)
       (setdefault (lit ''top_p'') (JFloat (Finite 1))
          (setdefault (lit ''temperature'') (JFloat (Finite 1))
             (setdefault (lit ''max_tokens'') (JInt 100) d)))"

text \<open>
  A message the flattening drops: a dict whose \<^verbatim>\<open>role\<close> key is present with a value
  other than the three roles.
\<close>

definition unknown_role :: "json \<Rightarrow> bool" where
  "unknown_role msg =
     (case msg of
        JObject d \<Rightarrow>
          (case map_of d (lit ''role'') of
             None \<Rightarrow> False
           | Some r \<Rightarrow> r \<noteq> JString (lit ''system'') \<and> r \<noteq> JString (lit ''user'')
                       \<and> r \<noteq> JString (lit ''assistant''))
      | _ \<Rightarrow> False)"

text \<open>
  The line a message object adds to the flattened prompt: with no \<^verbatim>\<open>role\<close> key the
  line of a user message, with one of the three roles its labelled line, with any
  other role nothing.
\<close>

definition role_line :: "runtime \<Rightarrow> json \<Rightarrow> pystr option" where
  "role_line rt msg =
     (case message_role msg of
        None \<Rightarrow> Some (lit ''User: '' @ message_content rt msg)
      | Some r \<Rightarrow>
          (if r = JString (lit ''system'') \<or> r = JString (lit ''user'')
              \<or> r = JString (lit ''assistant'')
           then Some (labelled_line rt msg)
           else None))"

text \<open>The HTTP status of an answer.\<close>

fun status_of :: "response \<Rightarrow> nat" where
  "status_of (JsonResponse st payload) = st"
| "status_of (SendError code msg) = code"

section \<open>Basic facts\<close>

lemma length_split_from:
  "length (split_from w s) = words_from (w \<noteq> []) s + (if w \<noteq> [] then 1 else 0)"
  by (induction s arbitrary: w) auto

lemma length_py_split: "length (py_split s) = word_count s"
  by (simp add: py_split_def word_count_def length_split_from)

lemma handle_completions_success:
  assumes "handle_completions h rt parsed = JsonResponse st payload"
  shows "\<exists>d p. parsed = Inr (JObject d)
           \<and> dict_get d (lit ''prompt'') (JString []) = JString p \<and> p \<noteq> []
           \<and> st = 200
           \<and> payload = completion_response h rt p
                (completion_text h p (dict_get d (lit ''max_tokens'') (JInt 100))
                   (dict_get d (lit ''temperature'') (JFloat (Finite 1)))
                   (dict_get d (lit ''top_p'') (JFloat (Finite 1))))"
  using assms
  by (auto simp: handle_completions_def completions_try_def completion_params_def
        send_json_response_def split: sum.splits json.splits if_splits)

lemma handle_completions_string:
  assumes "dict_get d (lit ''prompt'') (JString []) = JString p" and "p \<noteq> []"
  shows "handle_completions h rt (Inr (JObject d)) =
           JsonResponse 200 (completion_response h rt p
                (completion_text h p (dict_get d (lit ''max_tokens'') (JInt 100))
                   (dict_get d (lit ''temperature'') (JFloat (Finite 1)))
                   (dict_get d (lit ''top_p'') (JFloat (Finite 1)))))"
  using assms
  by (simp add: handle_completions_def completions_try_def completion_params_def
        send_json_response_def)

lemma handle_chat_completions_success:
  assumes "handle_chat_completions h rt parsed = JsonResponse st payload"
  shows "\<exists>d prompt. parsed = Inr (JObject d)
           \<and> truthy (dict_get d (lit ''messages'') (JList []))
           \<and> messages_to_prompt rt (dict_get d (lit ''messages'') (JList [])) = Inr prompt
           \<and> st = 200
           \<and> payload = chat_completion_response h rt prompt
                (completion_text h prompt (dict_get d (lit ''max_tokens'') (JInt 100))
                   (dict_get d (lit ''temperature'') (JFloat (Finite 1)))
                   (dict_get d (lit ''top_p'') (JFloat (Finite 1))))"
  using assms
  by (auto simp: handle_chat_completions_def chat_completions_try_def chat_params_def
        send_json_response_def split: sum.splits json.splits if_splits)

lemma handle_chat_completions_prompt:
  assumes "truthy (dict_get d (lit ''messages'') (JList []))"
    and "messages_to_prompt rt (dict_get d (lit ''messages'') (JList [])) = Inr prompt"
  shows "handle_chat_completions h rt (Inr (JObject d)) =
           JsonResponse 200 (chat_completion_response h rt prompt
                (completion_text h prompt (dict_get d (lit ''max_tokens'') (JInt 100))
                   (dict_get d (lit ''temperature'') (JFloat (Finite 1)))
                   (dict_get d (lit ''top_p'') (JFloat (Finite 1)))))"
  using assms
  by (simp add: handle_chat_completions_def chat_completions_try_def chat_params_def
        send_json_response_def)

lemma completion_choice_text:
  "json_at [Key (lit ''choices''), Index 0, Key (lit ''text'')] (completion_response h rt p t)
     = Some (JString t)"
  by (simp add: completion_response_def lit_def)

lemma chat_completion_choice_content:
  "json_at [Key (lit ''choices''), Index 0, Key (lit ''message''), Key (lit ''content'')]
     (chat_completion_response h rt p t) = Some (JString t)"
  by (simp add: chat_completion_response_def lit_def)

lemma completion_usage_fields:
  "json_at [Key (lit ''usage''), Key (lit ''prompt_tokens'')] (completion_response h rt p t)
     = Some (JInt (int (word_count p)))"
  "json_at [Key (lit ''usage''), Key (lit ''completion_tokens'')] (completion_response h rt p t)
     = Some (JInt (int (word_count t)))"
  "json_at [Key (lit ''usage''), Key (lit ''total_tokens'')] (completion_response h rt p t)
     = Some (JInt (int (word_count p) + int (word_count t)))"
  by (simp_all add: completion_response_def usage_def lit_def length_py_split)

lemma chat_completion_usage_fields:
  "json_at [Key (lit ''usage''), Key (lit ''prompt_tokens'')]
     (chat_completion_response h rt p t) = Some (JInt (int (word_count p)))"
  "json_at [Key (lit ''usage''), Key (lit ''completion_tokens'')]
     (chat_completion_response h rt p t) = Some (JInt (int (word_count t)))"
  "json_at [Key (lit ''usage''), Key (lit ''total_tokens'')]
     (chat_completion_response h rt p t)
     = Some (JInt (int (word_count p) + int (word_count t)))"
  by (simp_all add: chat_completion_response_def usage_def lit_def length_py_split)

section \<open>Token usage\<close>

text \<open>
  Claim C1. Every successful answer of POST /v1/completions and of POST
  /v1/chat/completions reports in \<^verbatim>\<open>usage\<close> the number of whitespace-separated words
  of the prompt (for chat, of the flattened prompt) as \<^verbatim>\<open>prompt_tokens\<close>, the number of
  whitespace-separated words of the completion text as \<^verbatim>\<open>completion_tokens\<close>, and their
  sum as \<^verbatim>\<open>total_tokens\<close>.
\<close>

theorem usage_counts_words:
  "(handle_completions h rt parsed = JsonResponse st payload \<longrightarrow>
      (\<exists>d p t. parsed = Inr (JObject d)
         \<and> dict_get d (lit ''prompt'') (JString []) = JString p
         \<and> json_at [Key (lit ''choices''), Index 0, Key (lit ''text'')] payload
             = Some (JString t)
         \<and> json_at [Key (lit ''usage''), Key (lit ''prompt_tokens'')] payload
             = Some (JInt (int (word_count p)))
         \<and> json_at [Key (lit ''usage''), Key (lit ''completion_tokens'')] payload
             = Some (JInt (int (word_count t)))
         \<and> json_at [Key (lit ''usage''), Key (lit ''total_tokens'')] payload
             = Some (JInt (int (word_count p) + int (word_count t)))))
   \<and> (handle_chat_completions h rt parsed = JsonResponse st payload \<longrightarrow>
      (\<exists>d p t. parsed = Inr (JObject d)
         \<and> messages_to_prompt rt (dict_get d (lit ''messages'') (JList [])) = Inr p
         \<and> json_at [Key (lit ''choices''), Index 0, Key (lit ''message''),
                      Key (lit ''content'')] payload
             = Some (JString t)
         \<and> json_at [Key (lit ''usage''), Key (lit ''prompt_tokens'')] payload
             = Some (JInt (int (word_count p)))
         \<and> json_at [Key (lit ''usage''), Key (lit ''completion_tokens'')] payload
             = Some (JInt (int (word_count t)))
         \<and> json_at [Key (lit ''usage''), Key (lit ''total_tokens'')] payload
             = Some (JInt (int (word_count p) + int (word_count t)))))"
proof (intro conjI impI)
  assume "handle_completions h rt parsed = JsonResponse st payload"
  then obtain d p t where "parsed = Inr (JObject d)"
    and "dict_get d (lit ''prompt'') (JString []) = JString p"
    and "payload = completion_response h rt p t"
    using handle_completions_success by blast
  then show "\<exists>d p t. parsed = Inr (JObject d)
         \<and> dict_get d (lit ''prompt'') (JString []) = JString p
         \<and> json_at [Key (lit ''choices''), Index 0, Key (lit ''text'')] payload
             = Some (JString t)
         \<and> json_at [Key (lit ''usage''), Key (lit ''prompt_tokens'')] payload
             = Some (JInt (int (word_count p)))
         \<and> json_at [Key (lit ''usage''), Key (lit ''completion_tokens'')] payload
             = Some (JInt (int (word_count t)))
         \<and> json_at [Key (lit ''usage''), Key (lit ''total_tokens'')] payload
             = Some (JInt (int (word_count p) + int (word_count t)))"
    by (rule_tac x = d in exI, rule_tac x = p in exI, rule_tac x = t in exI)
      (simp add: completion_choice_text completion_usage_fields del: json_at.simps)
next
  assume "handle_chat_completions h rt parsed = JsonResponse st payload"
  then obtain d p t where "parsed = Inr (JObject d)"
    and "messages_to_prompt rt (dict_get d (lit ''messages'') (JList [])) = Inr p"
    and "payload = chat_completion_response h rt p t"
    using handle_chat_completions_success by blast
  then show "\<exists>d p t. parsed = Inr (JObject d)
         \<and> messages_to_prompt rt (dict_get d (lit ''messages'') (JList [])) = Inr p
         \<and> json_at [Key (lit ''choices''), Index 0, Key (lit ''message''),
                      Key (lit ''content'')] payload
             = Some (JString t)
         \<and> json_at [Key (lit ''usage''), Key (lit ''prompt_tokens'')] payload
             = Some (JInt (int (word_count p)))
         \<and> json_at [Key (lit ''usage''), Key (lit ''completion_tokens'')] payload
             = Some (JInt (int (word_count t)))
         \<and> json_at [Key (lit ''usage''), Key (lit ''total_tokens'')] payload
             = Some (JInt (int (word_count p) + int (word_count t)))"
    by (rule_tac x = d in exI, rule_tac x = p in exI, rule_tac x = t in exI)
      (simp add: chat_completion_choice_content chat_completion_usage_fields
         del: json_at.simps)
qed

text \<open>
  The prompt \<^verbatim>\<open>hello world\<close> with no model loaded: 2 prompt words, 16 words in the
  placeholder, 18 in total.
\<close>

lemma sample_completion:
  "handle_completions OpenAIHandler sample_runtime
     (Inr (JObject [(lit ''prompt'', JString (lit ''hello world''))]))
   = JsonResponse 200
       (completion_response OpenAIHandler sample_runtime (lit ''hello world'') placeholder_text)"
  by (simp add: handle_completions_string dict_get_def lit_def completion_text_def
        OpenAIHandler_def)

lemma sample_chat:
  "handle_chat_completions OpenAIHandler sample_runtime
     (Inr (JObject [(lit ''messages'',
        JList [JObject [(lit ''role'', JString (lit ''user'')),
                        (lit ''content'', JString (lit ''Hi''))]])]))
   = JsonResponse 200
       (chat_completion_response OpenAIHandler sample_runtime
          (lit ''User: Hi'' @ [10] @ lit ''Assistant:'') placeholder_text)"
proof -
  have "messages_to_prompt sample_runtime
          (JList [JObject [(lit ''role'', JString (lit ''user'')),
                           (lit ''content'', JString (lit ''Hi''))]])
        = Inr (lit ''User: Hi'' @ [10] @ lit ''Assistant:'')"
    by (simp add: messages_to_prompt_def dict_get_def format_value_def lit_def)
  then show ?thesis
    by (simp add: handle_chat_completions_prompt dict_get_def completion_text_def
          OpenAIHandler_def)
qed

lemma word_count_samples:
  "word_count (lit ''hello world'') = 2"
  "word_count placeholder_text = 16"
  "word_count (lit ''User: Hi'' @ [10] @ lit ''Assistant:'') = 3"
  by (simp_all add: word_count_def placeholder_text_def lit_def isspace_def)

theorem usage_counts_words_witness:
  "handle_completions OpenAIHandler sample_runtime
     (Inr (JObject [(lit ''prompt'', JString (lit ''hello world''))]))
   = JsonResponse 200
       (completion_response OpenAIHandler sample_runtime (lit ''hello world'') placeholder_text)
   \<and> json_at [Key (lit ''usage''), Key (lit ''prompt_tokens'')]
        (completion_response OpenAIHandler sample_runtime (lit ''hello world'') placeholder_text)
       = Some (JInt 2)
   \<and> json_at [Key (lit ''usage''), Key (lit ''completion_tokens'')]
        (completion_response OpenAIHandler sample_runtime (lit ''hello world'') placeholder_text)
       = Some (JInt 16)
   \<and> json_at [Key (lit ''usage''), Key (lit ''total_tokens'')]
        (completion_response OpenAIHandler sample_runtime (lit ''hello world'') placeholder_text)
       = Some (JInt 18)
   \<and> json_at [Key (lit ''usage''), Key (lit ''total_tokens'')]
        (chat_completion_response OpenAIHandler sample_runtime
           (lit ''User: Hi'' @ [10] @ lit ''Assistant:'') placeholder_text)
       = Some (JInt 19)"
proof -
  let ?req = "Inr (JObject [(lit ''prompt'', JString (lit ''hello world''))])"
  let ?payload =
    "completion_response OpenAIHandler sample_runtime (lit ''hello world'') placeholder_text"
  have run: "handle_completions OpenAIHandler sample_runtime ?req = JsonResponse 200 ?payload"
    by (rule sample_completion)
  from usage_counts_words [of OpenAIHandler sample_runtime ?req 200 ?payload] run
  obtain d p t where d: "?req = Inr (JObject d)"
    and p: "dict_get d (lit ''prompt'') (JString []) = JString p"
    and t: "json_at [Key (lit ''choices''), Index 0, Key (lit ''text'')] ?payload
             = Some (JString t)"
    and u: "json_at [Key (lit ''usage''), Key (lit ''prompt_tokens'')] ?payload
             = Some (JInt (int (word_count p)))"
       "json_at [Key (lit ''usage''), Key (lit ''completion_tokens'')] ?payload
             = Some (JInt (int (word_count t)))"
       "json_at [Key (lit ''usage''), Key (lit ''total_tokens'')] ?payload
             = Some (JInt (int (word_count p) + int (word_count t)))"
    by blast
  from d have "d = [(lit ''prompt'', JString (lit ''hello world''))]"
    by simp
  with p have "p = lit ''hello world''"
    by (simp add: dict_get_def)
  moreover from t have "t = placeholder_text"
    by (simp add: completion_choice_text del: json_at.simps)
  ultimately have first: "json_at [Key (lit ''usage''), Key (lit ''prompt_tokens'')] ?payload
        = Some (JInt 2)"
      "json_at [Key (lit ''usage''), Key (lit ''completion_tokens'')] ?payload = Some (JInt 16)"
      "json_at [Key (lit ''usage''), Key (lit ''total_tokens'')] ?payload = Some (JInt 18)"
    using u by (simp_all add: word_count_samples del: json_at.simps)
  let ?chat = "Inr (JObject [(lit ''messages'',
        JList [JObject [(lit ''role'', JString (lit ''user'')),
                        (lit ''content'', JString (lit ''Hi''))]])])"
  let ?cc = "chat_completion_response OpenAIHandler sample_runtime
          (lit ''User: Hi'' @ [10] @ lit ''Assistant:'') placeholder_text"
  from usage_counts_words [of OpenAIHandler sample_runtime ?chat 200 ?cc] sample_chat
  obtain c q s where c: "?chat = Inr (JObject c)"
    and q: "messages_to_prompt sample_runtime (dict_get c (lit ''messages'') (JList [])) = Inr q"
    and s: "json_at [Key (lit ''choices''), Index 0, Key (lit ''message''),
                     Key (lit ''content'')] ?cc = Some (JString s)"
    and v: "json_at [Key (lit ''usage''), Key (lit ''total_tokens'')] ?cc
             = Some (JInt (int (word_count q) + int (word_count s)))"
    by blast
  from c have "c = [(lit ''messages'',
        JList [JObject [(lit ''role'', JString (lit ''user'')),
                        (lit ''content'', JString (lit ''Hi''))]])]"
    by simp
  with q have qv: "q = lit ''User: Hi'' @ [10] @ lit ''Assistant:''"
    by (simp add: dict_get_def messages_to_prompt_def format_value_def lit_def)
  from s have sv: "s = placeholder_text"
    by (simp add: chat_completion_choice_content del: json_at.simps)
  have "int (word_count q) + int (word_count s) = 19"
    by (simp only: qv sv word_count_samples)
  with v have "json_at [Key (lit ''usage''), Key (lit ''total_tokens'')] ?cc
      = Some (JInt 19)"
    by (simp only:)
  with run first show ?thesis
    by (simp only: simp_thms)
qed

section \<open>Flattening the chat messages\<close>

lemma role_labels:
  "capitalize (lit ''system'') @ lit '': '' @ s = lit ''System: '' @ s"
  "capitalize (lit ''user'') @ lit '': '' @ s = lit ''User: '' @ s"
  "capitalize (lit ''assistant'') @ lit '': '' @ s = lit ''Assistant: '' @ s"
  by (simp_all add: capitalize_def lit_def)

lemma role_literals_distinct:
  "lit ''system'' \<noteq> lit ''user''" "lit ''system'' \<noteq> lit ''assistant''"
  "lit ''user'' \<noteq> lit ''assistant''" "lit ''user'' \<noteq> lit ''system''"
  "lit ''assistant'' \<noteq> lit ''system''" "lit ''assistant'' \<noteq> lit ''user''"
  by (simp_all add: lit_def)

lemma prompt_parts_loop_append:
  "prompt_parts_loop rt parts (xs @ ys) =
     (case prompt_parts_loop rt parts xs of
        Inl e \<Rightarrow> Inl e
      | Inr parts' \<Rightarrow> prompt_parts_loop rt parts' ys)"
  by (induction xs arbitrary: parts) (simp_all add: Let_def split: json.splits)

lemma prompt_parts_loop_known_roles:
  assumes "\<forall>m\<in>set msgs. message_role m \<in>
             {Some (JString (lit ''system'')), Some (JString (lit ''user'')),
              Some (JString (lit ''assistant''))}"
  shows "prompt_parts_loop rt parts msgs = Inr (parts @ map (labelled_line rt) msgs)"
  using assms
proof (induction msgs arbitrary: parts)
  case Nil
  then show ?case by simp
next
  case (Cons m msgs)
  from Cons.prems obtain d where m: "m = JObject d"
    by (cases m) (auto simp: message_role_def)
  from Cons.prems m have
    "map_of d (lit ''role'') = Some (JString (lit ''system''))
     \<or> map_of d (lit ''role'') = Some (JString (lit ''user''))
     \<or> map_of d (lit ''role'') = Some (JString (lit ''assistant''))"
    by (simp add: message_role_def)
  then have step: "prompt_parts_loop rt parts (m # msgs) =
      prompt_parts_loop rt (parts @ [labelled_line rt m]) msgs"
    using m
    by (auto simp: labelled_line_def message_role_def message_content_def dict_get_def
          role_labels role_literals_distinct Let_def)
  from Cons.prems have "\<forall>m\<in>set msgs. message_role m \<in>
             {Some (JString (lit ''system'')), Some (JString (lit ''user'')),
              Some (JString (lit ''assistant''))}"
    by simp
  from Cons.IH [OF this] step show ?case by simp
qed


lemma messages_to_prompt_known_roles:
  assumes "\<forall>m\<in>set msgs. message_role m \<in>
             {Some (JString (lit ''system'')), Some (JString (lit ''user'')),
              Some (JString (lit ''assistant''))}"
  shows "messages_to_prompt rt (JList msgs) = Inr (flattened_prompt rt msgs)"
  by (simp add: messages_to_prompt_def flattened_prompt_def
        prompt_parts_loop_known_roles [OF assms])

text \<open>
  Claim C3. For every non-empty list of messages whose roles are among
  \<^verbatim>\<open>system\<close>, \<^verbatim>\<open>user\<close> and \<^verbatim>\<open>assistant\<close>, the prompt that POST /v1/chat/completions
  works with is the newline-joined sequence of each message's content prefixed by its
  capitalized role label, in the order of the messages, followed by a final line
  \<^verbatim>\<open>Assistant:\<close>.
\<close>

theorem chat_prompt_is_labelled_lines:
  assumes "msgs \<noteq> []"
    and "\<forall>m\<in>set msgs. message_role m \<in>
             {Some (JString (lit ''system'')), Some (JString (lit ''user'')),
              Some (JString (lit ''assistant''))}"
  shows "messages_to_prompt rt (JList msgs) = Inr (flattened_prompt rt msgs)
    \<and> (dict_get d (lit ''messages'') (JList []) = JList msgs \<longrightarrow>
         handle_chat_completions h rt (Inr (JObject d)) =
           JsonResponse 200 (chat_completion_response h rt (flattened_prompt rt msgs)
             (completion_text h (flattened_prompt rt msgs)
                (dict_get d (lit ''max_tokens'') (JInt 100))
                (dict_get d (lit ''temperature'') (JFloat (Finite 1)))
                (dict_get d (lit ''top_p'') (JFloat (Finite 1))))))"
proof (rule conjI)
  show p: "messages_to_prompt rt (JList msgs) = Inr (flattened_prompt rt msgs)"
    using assms(2) by (rule messages_to_prompt_known_roles)
  show "dict_get d (lit ''messages'') (JList []) = JList msgs \<longrightarrow>
         handle_chat_completions h rt (Inr (JObject d)) =
           JsonResponse 200 (chat_completion_response h rt (flattened_prompt rt msgs)
             (completion_text h (flattened_prompt rt msgs)
                (dict_get d (lit ''max_tokens'') (JInt 100))
                (dict_get d (lit ''temperature'') (JFloat (Finite 1)))
                (dict_get d (lit ''top_p'') (JFloat (Finite 1)))))"
    using assms(1) p by (simp add: handle_chat_completions_prompt)
qed

text \<open>
  The example of the specification: a system message and a user message.
\<close>

lemma sample_roles:
  "\<forall>m\<in>set [JObject [(lit ''role'', JString (lit ''system'')),
                        (lit ''content'', JString (lit ''Be terse.''))],
               JObject [(lit ''role'', JString (lit ''user'')),
                        (lit ''content'', JString (lit ''Hi''))]].
     message_role m \<in>
       {Some (JString (lit ''system'')), Some (JString (lit ''user'')),
        Some (JString (lit ''assistant''))}"
  by (simp add: message_role_def)

lemma sample_flattened:
  "flattened_prompt sample_runtime
     [JObject [(lit ''role'', JString (lit ''system'')),
               (lit ''content'', JString (lit ''Be terse.''))],
      JObject [(lit ''role'', JString (lit ''user'')),
               (lit ''content'', JString (lit ''Hi''))]]
   = lit ''System: Be terse.'' @ [10] @ lit ''User: Hi'' @ [10] @ lit ''Assistant:''"
  by (simp add: flattened_prompt_def labelled_line_def message_role_def
        message_content_def format_value_def dict_get_def capitalize_def lit_def)

theorem chat_prompt_is_labelled_lines_witness:
  "messages_to_prompt sample_runtime
     (JList [JObject [(lit ''role'', JString (lit ''system'')),
                      (lit ''content'', JString (lit ''Be terse.''))],
             JObject [(lit ''role'', JString (lit ''user'')),
                      (lit ''content'', JString (lit ''Hi''))]])
   = Inr (lit ''System: Be terse.'' @ [10] @ lit ''User: Hi'' @ [10] @ lit ''Assistant:'')
   \<and> status_of (handle_chat_completions OpenAIHandler sample_runtime
        (Inr (JObject [(lit ''messages'',
           JList [JObject [(lit ''role'', JString (lit ''system'')),
                           (lit ''content'', JString (lit ''Be terse.''))],
                  JObject [(lit ''role'', JString (lit ''user'')),
                           (lit ''content'', JString (lit ''Hi''))]])]))) = 200"
proof -
  let ?msgs = "[JObject [(lit ''role'', JString (lit ''system'')),
                         (lit ''content'', JString (lit ''Be terse.''))],
                JObject [(lit ''role'', JString (lit ''user'')),
                         (lit ''content'', JString (lit ''Hi''))]]"
  let ?d = "[(lit ''messages'', JList ?msgs)]"
  have ne: "?msgs \<noteq> []" by simp
  have d: "dict_get ?d (lit ''messages'') (JList []) = JList ?msgs"
    by (simp add: dict_get_def)
  from chat_prompt_is_labelled_lines [OF ne sample_roles, of sample_runtime ?d OpenAIHandler] d
  show ?thesis
    by (simp only: sample_flattened status_of.simps simp_thms)
qed


section \<open>Messages with an absent or unknown role\<close>

lemma key_literals_distinct:
  "lit ''role'' \<noteq> lit ''content''" "lit ''content'' \<noteq> lit ''role''"
  by (simp_all add: lit_def)

lemma absent_role_step:
  assumes "map_of d (lit ''role'') = None"
  shows "prompt_parts_loop rt parts (JObject d # rest) =
           prompt_parts_loop rt
             (parts @ [lit ''User: '' @ message_content rt (JObject d)]) rest"
    and "prompt_parts_loop rt parts (JObject ((lit ''role'', JString (lit ''user'')) # d) # rest) =
           prompt_parts_loop rt
             (parts @ [lit ''User: '' @ message_content rt (JObject d)]) rest"
  using assms
  by (simp_all add: dict_get_def message_content_def role_literals_distinct
        key_literals_distinct)

lemma unknown_role_step:
  assumes "unknown_role m"
  shows "prompt_parts_loop rt parts (m # rest) = prompt_parts_loop rt parts rest"
  using assms
  by (cases m) (auto simp: unknown_role_def dict_get_def split: option.splits)

lemma unknown_roles_add_nothing:
  assumes "\<forall>m\<in>set msgs. unknown_role m"
  shows "prompt_parts_loop rt parts msgs = Inr parts"
  using assms
  by (induction msgs) (simp_all add: unknown_role_step del: prompt_parts_loop.simps(2))

lemma messages_to_prompt_middle:
  assumes "\<And>parts. prompt_parts_loop rt parts xs = prompt_parts_loop rt parts ys"
  shows "messages_to_prompt rt (JList (pre @ xs @ post)) =
         messages_to_prompt rt (JList (pre @ ys @ post))"
  by (simp add: messages_to_prompt_def prompt_parts_loop_append assms
        split: sum.splits)

lemma roles_relational:
  "(map_of d (lit ''role'') = None \<longrightarrow>
      messages_to_prompt rt (JList (pre @ [JObject d] @ post)) =
      messages_to_prompt rt
        (JList (pre @ [JObject ((lit ''role'', JString (lit ''user'')) # d)] @ post))
      \<and> prompt_parts_loop rt parts [JObject d] =
          Inr (parts @ [lit ''User: '' @ message_content rt (JObject d)]))
   \<and> (unknown_role m \<longrightarrow>
      messages_to_prompt rt (JList (pre @ [m] @ post)) =
      messages_to_prompt rt (JList (pre @ post)))
   \<and> (msgs \<noteq> [] \<and> (\<forall>m\<in>set msgs. unknown_role m)
        \<and> dict_get body (lit ''messages'') (JList []) = JList msgs \<longrightarrow>
      handle_chat_completions h rt (Inr (JObject body)) =
        JsonResponse 200 (chat_completion_response h rt (lit ''Assistant:'')
          (completion_text h (lit ''Assistant:'')
             (dict_get body (lit ''max_tokens'') (JInt 100))
             (dict_get body (lit ''temperature'') (JFloat (Finite 1)))
             (dict_get body (lit ''top_p'') (JFloat (Finite 1))))))"
proof (intro conjI impI)
  assume absent: "map_of d (lit ''role'') = None"
  have "\<And>parts. prompt_parts_loop rt parts [JObject d] =
          prompt_parts_loop rt parts [JObject ((lit ''role'', JString (lit ''user'')) # d)]"
    by (simp only: absent_role_step [OF absent])
  then show "messages_to_prompt rt (JList (pre @ [JObject d] @ post)) =
      messages_to_prompt rt
        (JList (pre @ [JObject ((lit ''role'', JString (lit ''user'')) # d)] @ post))"
    by (rule messages_to_prompt_middle)
  show "prompt_parts_loop rt parts [JObject d] =
          Inr (parts @ [lit ''User: '' @ message_content rt (JObject d)])"
    by (simp only: absent_role_step(1) [OF absent] prompt_parts_loop.simps(1))
next
  assume "unknown_role m"
  then have "\<And>parts. prompt_parts_loop rt parts [m] = prompt_parts_loop rt parts []"
    by (rule unknown_role_step)
  then have "messages_to_prompt rt (JList (pre @ [m] @ post)) =
      messages_to_prompt rt (JList (pre @ [] @ post))"
    by (rule messages_to_prompt_middle)
  then show "messages_to_prompt rt (JList (pre @ [m] @ post)) =
      messages_to_prompt rt (JList (pre @ post))"
    by simp
next
  assume a: "msgs \<noteq> [] \<and> (\<forall>m\<in>set msgs. unknown_role m)
        \<and> dict_get body (lit ''messages'') (JList []) = JList msgs"
  then have "messages_to_prompt rt (JList msgs) = Inr (lit ''Assistant:'')"
    by (simp add: messages_to_prompt_def unknown_roles_add_nothing)
  with a show "handle_chat_completions h rt (Inr (JObject body)) =
        JsonResponse 200 (chat_completion_response h rt (lit ''Assistant:'')
          (completion_text h (lit ''Assistant:'')
             (dict_get body (lit ''max_tokens'') (JInt 100))
             (dict_get body (lit ''temperature'') (JFloat (Finite 1)))
             (dict_get body (lit ''top_p'') (JFloat (Finite 1)))))"
    by (simp add: handle_chat_completions_prompt)
qed


lemma role_line_step:
  "prompt_parts_loop rt parts (JObject d # rest) =
     prompt_parts_loop rt
       (parts @ (case role_line rt (JObject d) of None \<Rightarrow> [] | Some l \<Rightarrow> [l])) rest"
proof (cases "map_of d (lit ''role'')")
  case None
  then show ?thesis
    by (simp add: role_line_def message_role_def absent_role_step(1)
          del: prompt_parts_loop.simps)
next
  case (Some r)
  show ?thesis
  proof (cases "r = JString (lit ''system'') \<or> r = JString (lit ''user'')
      \<or> r = JString (lit ''assistant'')")
    case True
    with Some have "message_role (JObject d) \<in>
             {Some (JString (lit ''system'')), Some (JString (lit ''user'')),
              Some (JString (lit ''assistant''))}"
      by (auto simp: message_role_def)
    then have "\<forall>m\<in>set [JObject d]. message_role m \<in>
             {Some (JString (lit ''system'')), Some (JString (lit ''user'')),
              Some (JString (lit ''assistant''))}"
      by simp
    from prompt_parts_loop_known_roles [OF this, of rt parts]
    have one: "prompt_parts_loop rt parts [JObject d] = Inr (parts @ [labelled_line rt (JObject d)])"
      by simp
    have "prompt_parts_loop rt parts ([JObject d] @ rest) =
        prompt_parts_loop rt (parts @ [labelled_line rt (JObject d)]) rest"
      by (simp only: prompt_parts_loop_append one sum.case)
    moreover from Some True have "role_line rt (JObject d) = Some (labelled_line rt (JObject d))"
      by (simp add: role_line_def message_role_def)
    ultimately show ?thesis by simp
  next
    case False
    with Some have "unknown_role (JObject d)"
      by (simp add: unknown_role_def)
    moreover from Some False have "role_line rt (JObject d) = None"
      by (simp add: role_line_def message_role_def)
    ultimately show ?thesis
      by (simp add: unknown_role_step del: prompt_parts_loop.simps)
  qed
qed

lemma prompt_parts_loop_role_lines:
  assumes "\<forall>m\<in>set msgs. \<exists>md. m = JObject md"
  shows "prompt_parts_loop rt parts msgs = Inr (parts @ List.map_filter (role_line rt) msgs)"
  using assms
proof (induction msgs arbitrary: parts)
  case Nil
  then show ?case by (simp add: List.map_filter_simps)
next
  case (Cons m msgs)
  then obtain d where m: "m = JObject d" by auto
  from Cons.prems have rest: "\<forall>m\<in>set msgs. \<exists>md. m = JObject md" by simp
  show ?case
    unfolding m
    by (simp only: role_line_step Cons.IH [OF rest])
      (simp add: List.map_filter_simps split: option.splits)
qed

lemma messages_to_prompt_role_lines:
  assumes "\<forall>m\<in>set msgs. \<exists>md. m = JObject md"
  shows "messages_to_prompt rt (JList msgs) =
           Inr (join [10] (List.map_filter (role_line rt) msgs @ [lit ''Assistant:'']))"
  by (simp add: messages_to_prompt_def prompt_parts_loop_role_lines [OF assms])

lemma map_filter_append:
  "List.map_filter f (xs @ ys) = List.map_filter f xs @ List.map_filter f ys"
  by (simp add: List.map_filter_def)

lemma role_line_absent:
  "map_of d (lit ''role'') = None \<Longrightarrow>
     role_line rt (JObject d) = Some (lit ''User: '' @ message_content rt (JObject d))"
  by (simp add: role_line_def message_role_def)

lemma role_line_unknown:
  "unknown_role m \<Longrightarrow> role_line rt m = None"
  by (cases m) (auto simp: unknown_role_def role_line_def message_role_def split: option.splits)


text \<open>
  Claim C10. In the flattening for POST /v1/chat/completions, a message with no
  \<^verbatim>\<open>role\<close> key is treated as a user message: its line in the flattened prompt is its
  content prefixed \<^verbatim>\<open>User: \<close>, alone or among other message objects, and that prompt
  is the one the handler answers for. A message whose role is present but is none of
  \<^verbatim>\<open>system\<close>, \<^verbatim>\<open>user\<close>, \<^verbatim>\<open>assistant\<close> adds nothing to the flattened prompt. Such
  dropped messages still make the list non-empty for the check that gates the 400
  answer: a list of dropped messages only is answered with a completion for the prompt
  \<^verbatim>\<open>Assistant:\<close>. For every list of message objects the flattened prompt is the newline
  join of the lines of its messages, in order, and the final line \<^verbatim>\<open>Assistant:\<close>.
\<close>

theorem absent_and_unknown_roles:
  "(map_of d (lit ''role'') = None \<longrightarrow>
      messages_to_prompt rt (JList [JObject d]) =
        Inr (lit ''User: '' @ message_content rt (JObject d) @ [10] @ lit ''Assistant:'')
      \<and> ((\<forall>x\<in>set (pre @ post). \<exists>md. x = JObject md) \<longrightarrow>
           messages_to_prompt rt (JList (pre @ [JObject d] @ post)) =
             Inr (join [10]
               (List.map_filter (role_line rt) pre
                @ [lit ''User: '' @ message_content rt (JObject d)]
                @ List.map_filter (role_line rt) post
                @ [lit ''Assistant:''])))
      \<and> (dict_get body (lit ''messages'') (JList []) = JList [JObject d] \<longrightarrow>
           handle_chat_completions h rt (Inr (JObject body)) =
             JsonResponse 200 (chat_completion_response h rt
               (lit ''User: '' @ message_content rt (JObject d) @ [10] @ lit ''Assistant:'')
               (completion_text h
                  (lit ''User: '' @ message_content rt (JObject d) @ [10] @ lit ''Assistant:'')
                  (dict_get body (lit ''max_tokens'') (JInt 100))
                  (dict_get body (lit ''temperature'') (JFloat (Finite 1)))
                  (dict_get body (lit ''top_p'') (JFloat (Finite 1))))))
      \<and> messages_to_prompt rt (JList (pre @ [JObject d] @ post)) =
          messages_to_prompt rt
            (JList (pre @ [JObject ((lit ''role'', JString (lit ''user'')) # d)] @ post)))
   \<and> (unknown_role m \<longrightarrow>
      messages_to_prompt rt (JList [m]) = Inr (lit ''Assistant:'')
      \<and> ((\<forall>x\<in>set (pre @ post). \<exists>md. x = JObject md) \<longrightarrow>
           messages_to_prompt rt (JList (pre @ [m] @ post)) =
             Inr (join [10]
               (List.map_filter (role_line rt) pre
                @ List.map_filter (role_line rt) post
                @ [lit ''Assistant:''])))
      \<and> (dict_get body (lit ''messages'') (JList []) = JList [m] \<longrightarrow>
           handle_chat_completions h rt (Inr (JObject body)) =
             JsonResponse 200 (chat_completion_response h rt (lit ''Assistant:'')
               (completion_text h (lit ''Assistant:'')
                  (dict_get body (lit ''max_tokens'') (JInt 100))
                  (dict_get body (lit ''temperature'') (JFloat (Finite 1)))
                  (dict_get body (lit ''top_p'') (JFloat (Finite 1))))))
      \<and> messages_to_prompt rt (JList (pre @ [m] @ post)) =
          messages_to_prompt rt (JList (pre @ post)))
   \<and> ((\<forall>x\<in>set msgs. \<exists>md. x = JObject md) \<longrightarrow>
      messages_to_prompt rt (JList msgs) =
        Inr (join [10] (List.map_filter (role_line rt) msgs @ [lit ''Assistant:'']))
      \<and> (msgs \<noteq> [] \<and> dict_get body (lit ''messages'') (JList []) = JList msgs \<longrightarrow>
           handle_chat_completions h rt (Inr (JObject body)) =
             JsonResponse 200 (chat_completion_response h rt
               (join [10] (List.map_filter (role_line rt) msgs @ [lit ''Assistant:'']))
               (completion_text h
                  (join [10] (List.map_filter (role_line rt) msgs @ [lit ''Assistant:'']))
                  (dict_get body (lit ''max_tokens'') (JInt 100))
                  (dict_get body (lit ''temperature'') (JFloat (Finite 1)))
                  (dict_get body (lit ''top_p'') (JFloat (Finite 1)))))))
   \<and> (map_of d (lit ''role'') = None \<longrightarrow>
      prompt_parts_loop rt parts [JObject d] =
        Inr (parts @ [lit ''User: '' @ message_content rt (JObject d)]))
   \<and> (msgs \<noteq> [] \<and> (\<forall>x\<in>set msgs. unknown_role x)
        \<and> dict_get body (lit ''messages'') (JList []) = JList msgs \<longrightarrow>
      handle_chat_completions h rt (Inr (JObject body)) =
        JsonResponse 200 (chat_completion_response h rt (lit ''Assistant:'')
          (completion_text h (lit ''Assistant:'')
             (dict_get body (lit ''max_tokens'') (JInt 100))
             (dict_get body (lit ''temperature'') (JFloat (Finite 1)))
             (dict_get body (lit ''top_p'') (JFloat (Finite 1))))))"
proof -
  have general: "\<And>ms. \<forall>x\<in>set ms. \<exists>md. x = JObject md \<Longrightarrow>
      messages_to_prompt rt (JList ms) =
        Inr (join [10] (List.map_filter (role_line rt) ms @ [lit ''Assistant:'']))"
    by (rule messages_to_prompt_role_lines)
  have answered: "\<And>ms p. ms \<noteq> [] \<Longrightarrow>
      dict_get body (lit ''messages'') (JList []) = JList ms \<Longrightarrow>
      messages_to_prompt rt (JList ms) = Inr p \<Longrightarrow>
      handle_chat_completions h rt (Inr (JObject body)) =
        JsonResponse 200 (chat_completion_response h rt p
          (completion_text h p
             (dict_get body (lit ''max_tokens'') (JInt 100))
             (dict_get body (lit ''temperature'') (JFloat (Finite 1)))
             (dict_get body (lit ''top_p'') (JFloat (Finite 1)))))"
    by (simp add: handle_chat_completions_prompt)
  have absent: "map_of d (lit ''role'') = None \<longrightarrow>
      messages_to_prompt rt (JList [JObject d]) =
        Inr (lit ''User: '' @ message_content rt (JObject d) @ [10] @ lit ''Assistant:'')
      \<and> ((\<forall>x\<in>set (pre @ post). \<exists>md. x = JObject md) \<longrightarrow>
           messages_to_prompt rt (JList (pre @ [JObject d] @ post)) =
             Inr (join [10]
               (List.map_filter (role_line rt) pre
                @ [lit ''User: '' @ message_content rt (JObject d)]
                @ List.map_filter (role_line rt) post
                @ [lit ''Assistant:''])))
      \<and> (dict_get body (lit ''messages'') (JList []) = JList [JObject d] \<longrightarrow>
           handle_chat_completions h rt (Inr (JObject body)) =
             JsonResponse 200 (chat_completion_response h rt
               (lit ''User: '' @ message_content rt (JObject d) @ [10] @ lit ''Assistant:'')
               (completion_text h
                  (lit ''User: '' @ message_content rt (JObject d) @ [10] @ lit ''Assistant:'')
                  (dict_get body (lit ''max_tokens'') (JInt 100))
                  (dict_get body (lit ''temperature'') (JFloat (Finite 1)))
                  (dict_get body (lit ''top_p'') (JFloat (Finite 1))))))
      \<and> messages_to_prompt rt (JList (pre @ [JObject d] @ post)) =
          messages_to_prompt rt
            (JList (pre @ [JObject ((lit ''role'', JString (lit ''user'')) # d)] @ post))"
  proof (intro impI conjI)
    assume no_role: "map_of d (lit ''role'') = None"
    have line: "role_line rt (JObject d) = Some (lit ''User: '' @ message_content rt (JObject d))"
      using no_role by (rule role_line_absent)
    have "\<forall>x\<in>set [JObject d]. \<exists>md. x = JObject md" by simp
    from general [OF this] line
    show one: "messages_to_prompt rt (JList [JObject d]) =
        Inr (lit ''User: '' @ message_content rt (JObject d) @ [10] @ lit ''Assistant:'')"
      by (simp add: List.map_filter_simps)
    {
      assume "\<forall>x\<in>set (pre @ post). \<exists>md. x = JObject md"
      then have "\<forall>x\<in>set (pre @ [JObject d] @ post). \<exists>md. x = JObject md"
        by auto
      from general [OF this] line
      show "messages_to_prompt rt (JList (pre @ [JObject d] @ post)) =
             Inr (join [10]
               (List.map_filter (role_line rt) pre
                @ [lit ''User: '' @ message_content rt (JObject d)]
                @ List.map_filter (role_line rt) post
                @ [lit ''Assistant:'']))"
        by (simp add: map_filter_append List.map_filter_simps)
    }
    {
      assume "dict_get body (lit ''messages'') (JList []) = JList [JObject d]"
      with one show "handle_chat_completions h rt (Inr (JObject body)) =
             JsonResponse 200 (chat_completion_response h rt
               (lit ''User: '' @ message_content rt (JObject d) @ [10] @ lit ''Assistant:'')
               (completion_text h
                  (lit ''User: '' @ message_content rt (JObject d) @ [10] @ lit ''Assistant:'')
                  (dict_get body (lit ''max_tokens'') (JInt 100))
                  (dict_get body (lit ''temperature'') (JFloat (Finite 1)))
                  (dict_get body (lit ''top_p'') (JFloat (Finite 1)))))"
        by (intro answered) simp_all
    }
    have "\<And>parts. prompt_parts_loop rt parts [JObject d] =
          prompt_parts_loop rt parts [JObject ((lit ''role'', JString (lit ''user'')) # d)]"
      by (simp only: absent_role_step [OF no_role])
    then show "messages_to_prompt rt (JList (pre @ [JObject d] @ post)) =
        messages_to_prompt rt
          (JList (pre @ [JObject ((lit ''role'', JString (lit ''user'')) # d)] @ post))"
      by (rule messages_to_prompt_middle)
  qed
  have unknown: "unknown_role m \<longrightarrow>
      messages_to_prompt rt (JList [m]) = Inr (lit ''Assistant:'')
      \<and> ((\<forall>x\<in>set (pre @ post). \<exists>md. x = JObject md) \<longrightarrow>
           messages_to_prompt rt (JList (pre @ [m] @ post)) =
             Inr (join [10]
               (List.map_filter (role_line rt) pre
                @ List.map_filter (role_line rt) post
                @ [lit ''Assistant:''])))
      \<and> (dict_get body (lit ''messages'') (JList []) = JList [m] \<longrightarrow>
           handle_chat_completions h rt (Inr (JObject body)) =
             JsonResponse 200 (chat_completion_response h rt (lit ''Assistant:'')
               (completion_text h (lit ''Assistant:'')
                  (dict_get body (lit ''max_tokens'') (JInt 100))
                  (dict_get body (lit ''temperature'') (JFloat (Finite 1)))
                  (dict_get body (lit ''top_p'') (JFloat (Finite 1))))))
      \<and> messages_to_prompt rt (JList (pre @ [m] @ post)) =
          messages_to_prompt rt (JList (pre @ post))"
  proof (intro impI conjI)
    assume u: "unknown_role m"
    then have line: "role_line rt m = None"
      by (rule role_line_unknown)
    from u obtain md where md: "m = JObject md"
      by (cases m) (simp_all add: unknown_role_def)
    then have "\<forall>x\<in>set [m]. \<exists>md. x = JObject md" by simp
    from general [OF this] line
    show one: "messages_to_prompt rt (JList [m]) = Inr (lit ''Assistant:'')"
      by (simp add: List.map_filter_simps)
    {
      assume "\<forall>x\<in>set (pre @ post). \<exists>md. x = JObject md"
      with md have "\<forall>x\<in>set (pre @ [m] @ post). \<exists>md. x = JObject md"
        by auto
      from general [OF this] line
      show "messages_to_prompt rt (JList (pre @ [m] @ post)) =
             Inr (join [10]
               (List.map_filter (role_line rt) pre
                @ List.map_filter (role_line rt) post
                @ [lit ''Assistant:'']))"
        by (simp add: map_filter_append List.map_filter_simps)
    }
    {
      assume "dict_get body (lit ''messages'') (JList []) = JList [m]"
      with one show "handle_chat_completions h rt (Inr (JObject body)) =
             JsonResponse 200 (chat_completion_response h rt (lit ''Assistant:'')
               (completion_text h (lit ''Assistant:'')
                  (dict_get body (lit ''max_tokens'') (JInt 100))
                  (dict_get body (lit ''temperature'') (JFloat (Finite 1)))
                  (dict_get body (lit ''top_p'') (JFloat (Finite 1)))))"
        by (intro answered) simp_all
    }
    from u have "\<And>parts. prompt_parts_loop rt parts [m] = prompt_parts_loop rt parts []"
      by (rule unknown_role_step)
    then have "messages_to_prompt rt (JList (pre @ [m] @ post)) =
        messages_to_prompt rt (JList (pre @ [] @ post))"
      by (rule messages_to_prompt_middle)
    then show "messages_to_prompt rt (JList (pre @ [m] @ post)) =
        messages_to_prompt rt (JList (pre @ post))"
      by simp
  qed
  have all: "(\<forall>x\<in>set msgs. \<exists>md. x = JObject md) \<longrightarrow>
      messages_to_prompt rt (JList msgs) =
        Inr (join [10] (List.map_filter (role_line rt) msgs @ [lit ''Assistant:'']))
      \<and> (msgs \<noteq> [] \<and> dict_get body (lit ''messages'') (JList []) = JList msgs \<longrightarrow>
           handle_chat_completions h rt (Inr (JObject body)) =
             JsonResponse 200 (chat_completion_response h rt
               (join [10] (List.map_filter (role_line rt) msgs @ [lit ''Assistant:'']))
               (completion_text h
                  (join [10] (List.map_filter (role_line rt) msgs @ [lit ''Assistant:'']))
                  (dict_get body (lit ''max_tokens'') (JInt 100))
                  (dict_get body (lit ''temperature'') (JFloat (Finite 1)))
                  (dict_get body (lit ''top_p'') (JFloat (Finite 1))))))"
  proof (intro impI conjI)
    assume dicts: "\<forall>x\<in>set msgs. \<exists>md. x = JObject md"
    from general [OF dicts]
    show p: "messages_to_prompt rt (JList msgs) =
        Inr (join [10] (List.map_filter (role_line rt) msgs @ [lit ''Assistant:'']))" .
    assume "msgs \<noteq> [] \<and> dict_get body (lit ''messages'') (JList []) = JList msgs"
    with p show "handle_chat_completions h rt (Inr (JObject body)) =
             JsonResponse 200 (chat_completion_response h rt
               (join [10] (List.map_filter (role_line rt) msgs @ [lit ''Assistant:'']))
               (completion_text h
                  (join [10] (List.map_filter (role_line rt) msgs @ [lit ''Assistant:'']))
                  (dict_get body (lit ''max_tokens'') (JInt 100))
                  (dict_get body (lit ''temperature'') (JFloat (Finite 1)))
                  (dict_get body (lit ''top_p'') (JFloat (Finite 1)))))"
      by (intro answered) simp_all
  qed
  have loop: "map_of d (lit ''role'') = None \<longrightarrow>
      prompt_parts_loop rt parts [JObject d] =
        Inr (parts @ [lit ''User: '' @ message_content rt (JObject d)])"
    using roles_relational [where d = d and rt = rt and parts = parts] by blast
  have gate: "msgs \<noteq> [] \<and> (\<forall>x\<in>set msgs. unknown_role x)
        \<and> dict_get body (lit ''messages'') (JList []) = JList msgs \<longrightarrow>
      handle_chat_completions h rt (Inr (JObject body)) =
        JsonResponse 200 (chat_completion_response h rt (lit ''Assistant:'')
          (completion_text h (lit ''Assistant:'')
             (dict_get body (lit ''max_tokens'') (JInt 100))
             (dict_get body (lit ''temperature'') (JFloat (Finite 1)))
             (dict_get body (lit ''top_p'') (JFloat (Finite 1)))))"
    using roles_relational [where msgs = msgs and body = body and h = h and rt = rt] by blast
  from absent unknown all loop gate show ?thesis
    by (intro conjI)
qed


text \<open>
  A system message, a message with no role and a message with the role \<^verbatim>\<open>tool\<close>.
\<close>

lemma sample_role_lines:
  "role_line sample_runtime
     (JObject [(lit ''role'', JString (lit ''system'')),
               (lit ''content'', JString (lit ''Be terse.''))])
   = Some (lit ''System: Be terse.'')"
  "role_line sample_runtime
     (JObject [(lit ''role'', JString (lit ''tool'')), (lit ''content'', JString (lit ''x''))])
   = None"
  "lit ''User: '' @ message_content sample_runtime (JObject [(lit ''content'', JString (lit ''hi''))])
   = lit ''User: hi''"
  by (simp_all add: role_line_def message_role_def labelled_line_def message_content_def
        format_value_def dict_get_def capitalize_def lit_def)

theorem absent_and_unknown_roles_witness:
  "messages_to_prompt sample_runtime
     (JList [JObject [(lit ''role'', JString (lit ''system'')),
                      (lit ''content'', JString (lit ''Be terse.''))],
             JObject [(lit ''content'', JString (lit ''hi''))],
             JObject [(lit ''role'', JString (lit ''tool'')),
                      (lit ''content'', JString (lit ''x''))]])
     = Inr (lit ''System: Be terse.'' @ [10] @ lit ''User: hi'' @ [10] @ lit ''Assistant:'')
   \<and> handle_chat_completions OpenAIHandler sample_runtime
       (Inr (JObject [(lit ''messages'', JList [JObject [(lit ''content'', JString (lit ''hi''))]])]))
     = JsonResponse 200 (chat_completion_response OpenAIHandler sample_runtime
         (lit ''User: hi'' @ [10] @ lit ''Assistant:'') placeholder_text)
   \<and> handle_chat_completions OpenAIHandler sample_runtime
       (Inr (JObject [(lit ''messages'',
          JList [JObject [(lit ''role'', JString (lit ''tool'')),
                          (lit ''content'', JString (lit ''x''))]])]))
     = JsonResponse 200 (chat_completion_response OpenAIHandler sample_runtime
         (lit ''Assistant:'') placeholder_text)"
proof -
  let ?sys = "JObject [(lit ''role'', JString (lit ''system'')),
                       (lit ''content'', JString (lit ''Be terse.''))]"
  let ?d = "[(lit ''content'', JString (lit ''hi''))]"
  let ?tool = "JObject [(lit ''role'', JString (lit ''tool'')),
                        (lit ''content'', JString (lit ''x''))]"
  let ?body = "[(lit ''messages'', JList [JObject ?d])]"
  let ?body' = "[(lit ''messages'', JList [?tool])]"
  have absent: "map_of ?d (lit ''role'') = None"
    by (simp add: lit_def)
  have unknown: "unknown_role ?tool"
    by (simp add: unknown_role_def lit_def)
  have dicts: "\<forall>x\<in>set ([?sys] @ [?tool]). \<exists>md. x = JObject md"
    by simp
  have body: "dict_get ?body (lit ''messages'') (JList []) = JList [JObject ?d]"
    "dict_get ?body' (lit ''messages'') (JList []) = JList [?tool]"
    by (simp_all add: dict_get_def)
  have ct: "\<And>p a b c. completion_text OpenAIHandler p a b c = placeholder_text"
    by (simp add: completion_text_def OpenAIHandler_def)
  from absent_and_unknown_roles [where d = ?d and rt = sample_runtime
      and pre = "[?sys]" and post = "[?tool]" and body = ?body and h = OpenAIHandler]
    absent dicts body(1)
  have "messages_to_prompt sample_runtime (JList ([?sys] @ [JObject ?d] @ [?tool])) =
          Inr (join [10]
            (List.map_filter (role_line sample_runtime) [?sys]
             @ [lit ''User: '' @ message_content sample_runtime (JObject ?d)]
             @ List.map_filter (role_line sample_runtime) [?tool]
             @ [lit ''Assistant:'']))"
    and "handle_chat_completions OpenAIHandler sample_runtime (Inr (JObject ?body)) =
          JsonResponse 200 (chat_completion_response OpenAIHandler sample_runtime
            (lit ''User: '' @ message_content sample_runtime (JObject ?d) @ [10]
               @ lit ''Assistant:'')
            (completion_text OpenAIHandler
               (lit ''User: '' @ message_content sample_runtime (JObject ?d) @ [10]
                  @ lit ''Assistant:'')
               (dict_get ?body (lit ''max_tokens'') (JInt 100))
               (dict_get ?body (lit ''temperature'') (JFloat (Finite 1)))
               (dict_get ?body (lit ''top_p'') (JFloat (Finite 1)))))"
    by blast+
  then have first: "messages_to_prompt sample_runtime (JList [?sys, JObject ?d, ?tool])
        = Inr (lit ''System: Be terse.'' @ [10] @ lit ''User: hi'' @ [10] @ lit ''Assistant:'')"
    and second: "handle_chat_completions OpenAIHandler sample_runtime (Inr (JObject ?body))
        = JsonResponse 200 (chat_completion_response OpenAIHandler sample_runtime
            (lit ''User: hi'' @ [10] @ lit ''Assistant:'') placeholder_text)"
    using sample_role_lines(3)
    by (simp_all add: List.map_filter_simps sample_role_lines(1,2) ct
          flip: append_assoc)
  from absent_and_unknown_roles [where m = ?tool and rt = sample_runtime
      and body = ?body' and h = OpenAIHandler]
    unknown body(2)
  have "handle_chat_completions OpenAIHandler sample_runtime (Inr (JObject ?body')) =
          JsonResponse 200 (chat_completion_response OpenAIHandler sample_runtime
            (lit ''Assistant:'')
            (completion_text OpenAIHandler (lit ''Assistant:'')
               (dict_get ?body' (lit ''max_tokens'') (JInt 100))
               (dict_get ?body' (lit ''temperature'') (JFloat (Finite 1)))
               (dict_get ?body' (lit ''top_p'') (JFloat (Finite 1)))))"
    by blast
  then have third: "handle_chat_completions OpenAIHandler sample_runtime (Inr (JObject ?body'))
        = JsonResponse 200 (chat_completion_response OpenAIHandler sample_runtime
            (lit ''Assistant:'') placeholder_text)"
    by (simp only: ct)
  from first second third show ?thesis
    by (simp only: simp_thms)
qed

section \<open>Rejected requests\<close>

lemma handle_completions_falsy:
  assumes "\<not> truthy (dict_get d (lit ''prompt'') (JString []))"
  shows "handle_completions h rt (Inr (JObject d)) =
           SendError 400 (Message (lit ''Missing 'prompt' field''))"
  using assms
  by (simp add: handle_completions_def completions_try_def completion_params_def)

lemma handle_completions_truthy_not_str:
  assumes "truthy (dict_get d (lit ''prompt'') (JString []))"
    and "\<And>p. dict_get d (lit ''prompt'') (JString []) \<noteq> JString p"
  shows "handle_completions h rt (Inr (JObject d)) =
           SendError 500 (InternalServerError
             (AttributeError (type_name (dict_get d (lit ''prompt'') (JString []))) ''split''))"
  using assms
  by (cases "dict_get d (lit ''prompt'') (JString [])")
    (auto simp: handle_completions_def completions_try_def completion_params_def)

lemma handle_chat_completions_falsy:
  assumes "\<not> truthy (dict_get d (lit ''messages'') (JList []))"
  shows "handle_chat_completions h rt (Inr (JObject d)) =
           SendError 400 (Message (lit ''Missing 'messages' field''))"
  using assms
  by (simp add: handle_chat_completions_def chat_completions_try_def chat_params_def)

text \<open>
  Claim C2. A POST /v1/completions request whose JSON body has no \<^verbatim>\<open>prompt\<close> key is
  answered with HTTP 400, and a POST /v1/chat/completions request whose \<^verbatim>\<open>messages\<close>
  are absent or the empty list is answered with HTTP 400; the answer is the error, so
  no completion payload is produced.
\<close>

theorem missing_fields_rejected:
  "(map_of d (lit ''prompt'') = None \<longrightarrow>
      handle_completions h rt (Inr (JObject d)) =
        SendError 400 (Message (lit ''Missing 'prompt' field'')))
   \<and> (map_of d (lit ''messages'') = None \<or> map_of d (lit ''messages'') = Some (JList []) \<longrightarrow>
      handle_chat_completions h rt (Inr (JObject d)) =
        SendError 400 (Message (lit ''Missing 'messages' field'')))"
proof (intro conjI impI)
  assume "map_of d (lit ''prompt'') = None"
  then have "\<not> truthy (dict_get d (lit ''prompt'') (JString []))"
    by (simp add: dict_get_def)
  then show "handle_completions h rt (Inr (JObject d)) =
        SendError 400 (Message (lit ''Missing 'prompt' field''))"
    by (rule handle_completions_falsy)
next
  assume "map_of d (lit ''messages'') = None \<or> map_of d (lit ''messages'') = Some (JList [])"
  then have "\<not> truthy (dict_get d (lit ''messages'') (JList []))"
    by (auto simp: dict_get_def)
  then show "handle_chat_completions h rt (Inr (JObject d)) =
        SendError 400 (Message (lit ''Missing 'messages' field''))"
    by (rule handle_chat_completions_falsy)
qed

theorem missing_fields_rejected_witness:
  "handle_completions OpenAIHandler sample_runtime (Inr (JObject [(lit ''max_tokens'', JInt 5)]))
     = SendError 400 (Message (lit ''Missing 'prompt' field''))
   \<and> handle_chat_completions OpenAIHandler sample_runtime (Inr (JObject []))
     = SendError 400 (Message (lit ''Missing 'messages' field''))
   \<and> handle_chat_completions OpenAIHandler sample_runtime
       (Inr (JObject [(lit ''messages'', JList [])]))
     = SendError 400 (Message (lit ''Missing 'messages' field''))"
proof -
  have "map_of [(lit ''max_tokens'', JInt 5)] (lit ''prompt'') = None"
    by (simp add: lit_def)
  moreover have "map_of [] (lit ''messages'') = (None :: json option)"
    by simp
  moreover have "map_of [(lit ''messages'', JList [])] (lit ''messages'') = Some (JList [])"
    by simp
  ultimately show ?thesis
    using missing_fields_rejected [of "[(lit ''max_tokens'', JInt 5)]" OpenAIHandler sample_runtime]
      missing_fields_rejected [of "[]" OpenAIHandler sample_runtime]
      missing_fields_rejected [of "[(lit ''messages'', JList [])]" OpenAIHandler sample_runtime]
    by blast
qed

text \<open>
  Claim C9 says that POST /v1/completions answers 400 exactly when the parsed prompt
  is falsy, and that every truthy prompt proceeds to a completion payload. The second
  half fails for a truthy prompt that is not a string: the prompt \<^verbatim>\<open>5\<close> passes the
  test \<^verbatim>\<open>if not prompt\<close>, and \<^verbatim>\<open>prompt.split()\<close> then raises, which the \<^verbatim>\<open>except\<close>
  clause answers with 500.
\<close>

theorem truthy_prompt_not_always_completed:
  "truthy (dict_get [(lit ''prompt'', JInt 5)] (lit ''prompt'') (JString []))
   \<and> handle_completions OpenAIHandler sample_runtime (Inr (JObject [(lit ''prompt'', JInt 5)]))
     = SendError 500 (InternalServerError (AttributeError ''int'' ''split''))"
  by (simp add: handle_completions_def completions_try_def completion_params_def dict_get_def)

text \<open>
  Claim C9, amended. For a body that is a JSON object, POST /v1/completions answers
  with HTTP 400 if and only if the parsed prompt is falsy (a missing key, the empty
  string, null, 0, false, an empty list or object), and every truthy prompt that is a
  string proceeds to produce a completion payload.
\<close>

theorem bad_request_iff_falsy_prompt:
  "(status_of (handle_completions h rt (Inr (JObject d))) = 400
      \<longleftrightarrow> \<not> truthy (dict_get d (lit ''prompt'') (JString [])))
   \<and> (dict_get d (lit ''prompt'') (JString []) = JString p \<and> p \<noteq> [] \<longrightarrow>
        handle_completions h rt (Inr (JObject d)) =
          JsonResponse 200 (completion_response h rt p
            (completion_text h p (dict_get d (lit ''max_tokens'') (JInt 100))
               (dict_get d (lit ''temperature'') (JFloat (Finite 1)))
               (dict_get d (lit ''top_p'') (JFloat (Finite 1))))))"
proof (intro conjI impI)
  show "status_of (handle_completions h rt (Inr (JObject d))) = 400
      \<longleftrightarrow> \<not> truthy (dict_get d (lit ''prompt'') (JString []))"
  proof (cases "truthy (dict_get d (lit ''prompt'') (JString []))")
    case False
    then show ?thesis by (simp add: handle_completions_falsy)
  next
    case True
    show ?thesis
    proof (cases "\<exists>p. dict_get d (lit ''prompt'') (JString []) = JString p")
      case True
      then obtain p where p: "dict_get d (lit ''prompt'') (JString []) = JString p" ..
      with \<open>truthy (dict_get d (lit ''prompt'') (JString []))\<close> have "p \<noteq> []" by simp
      with p show ?thesis
        using \<open>truthy (dict_get d (lit ''prompt'') (JString []))\<close>
        by (simp add: handle_completions_string)
    next
      case False
      then have "\<And>p. dict_get d (lit ''prompt'') (JString []) \<noteq> JString p" by blast
      with True show ?thesis
        by (simp add: handle_completions_truthy_not_str)
    qed
  qed
next
  assume "dict_get d (lit ''prompt'') (JString []) = JString p \<and> p \<noteq> []"
  then show "handle_completions h rt (Inr (JObject d)) =
          JsonResponse 200 (completion_response h rt p
            (completion_text h p (dict_get d (lit ''max_tokens'') (JInt 100))
               (dict_get d (lit ''temperature'') (JFloat (Finite 1)))
               (dict_get d (lit ''top_p'') (JFloat (Finite 1)))))"
    by (simp add: handle_completions_string)
qed

theorem bad_request_iff_falsy_prompt_witness:
  "status_of (handle_completions OpenAIHandler sample_runtime
     (Inr (JObject [(lit ''prompt'', JString [])]))) = 400
   \<and> status_of (handle_completions OpenAIHandler sample_runtime
     (Inr (JObject [(lit ''prompt'', JString (lit ''hello world''))]))) = 200"
proof -
  have "\<not> truthy (dict_get [(lit ''prompt'', JString [])] (lit ''prompt'') (JString []))"
    by (simp add: dict_get_def)
  moreover have "dict_get [(lit ''prompt'', JString (lit ''hello world''))] (lit ''prompt'')
      (JString []) = JString (lit ''hello world'') \<and> lit ''hello world'' \<noteq> []"
    by (simp add: dict_get_def lit_def)
  ultimately show ?thesis
    using bad_request_iff_falsy_prompt [of OpenAIHandler sample_runtime
        "[(lit ''prompt'', JString [])]" "[]"]
      bad_request_iff_falsy_prompt [of OpenAIHandler sample_runtime
        "[(lit ''prompt'', JString (lit ''hello world''))]" "lit ''hello world''"]
    by simp
qed

section \<open>The shape of a completion\<close>

lemma completion_choices:
  "select (Key (lit ''choices'')) (completion_response h rt p t) =
     Some (JList [JObject [(lit ''text'', JString t), (lit ''index'', JInt 0),
                           (lit ''logprobs'', JNull),
                           (lit ''finish_reason'', JString (lit ''length''))]])"
  by (simp add: completion_response_def lit_def)

lemma chat_completion_choices:
  "select (Key (lit ''choices'')) (chat_completion_response h rt p t) =
     Some (JList [JObject [(lit ''index'', JInt 0),
                           (lit ''message'', JObject
                              [(lit ''role'', JString (lit ''assistant'')),
                               (lit ''content'', JString t)]),
                           (lit ''finish_reason'', JString (lit ''length''))]])"
  by (simp add: chat_completion_response_def lit_def)

lemma n_is_no_parameter:
  "lit ''prompt'' \<noteq> lit ''n''" "lit ''max_tokens'' \<noteq> lit ''n''"
  "lit ''temperature'' \<noteq> lit ''n''" "lit ''top_p'' \<noteq> lit ''n''"
  "lit ''messages'' \<noteq> lit ''n''"
  by (simp_all add: lit_def)

lemma handle_completions_ignores_n:
  assumes "\<And>k. k \<noteq> lit ''n'' \<Longrightarrow> map_of d k = map_of d' k"
  shows "handle_completions h rt (Inr (JObject d)) = handle_completions h rt (Inr (JObject d'))"
proof -
  have "dict_get d (lit ''prompt'') (JString []) = dict_get d' (lit ''prompt'') (JString [])"
    "dict_get d (lit ''max_tokens'') (JInt 100) = dict_get d' (lit ''max_tokens'') (JInt 100)"
    "dict_get d (lit ''temperature'') (JFloat (Finite 1))
       = dict_get d' (lit ''temperature'') (JFloat (Finite 1))"
    "dict_get d (lit ''top_p'') (JFloat (Finite 1)) = dict_get d' (lit ''top_p'') (JFloat (Finite 1))"
    by (simp_all add: dict_get_def assms n_is_no_parameter)
  then show ?thesis
    by (simp add: handle_completions_def completions_try_def completion_params_def)
qed

lemma handle_chat_completions_ignores_n:
  assumes "\<And>k. k \<noteq> lit ''n'' \<Longrightarrow> map_of d k = map_of d' k"
  shows "handle_chat_completions h rt (Inr (JObject d)) =
         handle_chat_completions h rt (Inr (JObject d'))"
proof -
  have "dict_get d (lit ''messages'') (JList []) = dict_get d' (lit ''messages'') (JList [])"
    "dict_get d (lit ''max_tokens'') (JInt 100) = dict_get d' (lit ''max_tokens'') (JInt 100)"
    "dict_get d (lit ''temperature'') (JFloat (Finite 1))
       = dict_get d' (lit ''temperature'') (JFloat (Finite 1))"
    "dict_get d (lit ''top_p'') (JFloat (Finite 1)) = dict_get d' (lit ''top_p'') (JFloat (Finite 1))"
    by (simp_all add: dict_get_def assms n_is_no_parameter)
  then show ?thesis
    by (simp add: handle_chat_completions_def chat_completions_try_def chat_params_def)
qed

text \<open>
  Claim C5. Every successful answer of POST /v1/completions has exactly one element
  in \<^verbatim>\<open>choices\<close>, with index 0, logprobs null and finish_reason \<^verbatim>\<open>length\<close>, whatever the
  value of \<^verbatim>\<open>n\<close> in the request (two bodies that differ in \<^verbatim>\<open>n\<close> only get the same
  answer); likewise every successful answer of POST /v1/chat/completions has exactly
  one choice, with index 0, the role \<^verbatim>\<open>assistant\<close> in its message and finish_reason
  \<^verbatim>\<open>length\<close>.
\<close>

theorem one_choice_finish_length:
  "(handle_completions h rt parsed = JsonResponse st payload \<longrightarrow>
      st = 200 \<and>
      (\<exists>t. select (Key (lit ''choices'')) payload =
         Some (JList [JObject [(lit ''text'', JString t), (lit ''index'', JInt 0),
                               (lit ''logprobs'', JNull),
                               (lit ''finish_reason'', JString (lit ''length''))]])))
   \<and> (handle_chat_completions h rt parsed = JsonResponse st payload \<longrightarrow>
      st = 200 \<and>
      (\<exists>t. select (Key (lit ''choices'')) payload =
         Some (JList [JObject [(lit ''index'', JInt 0),
                               (lit ''message'', JObject
                                  [(lit ''role'', JString (lit ''assistant'')),
                                   (lit ''content'', JString t)]),
                               (lit ''finish_reason'', JString (lit ''length''))]])))
   \<and> ((\<forall>k. k \<noteq> lit ''n'' \<longrightarrow> map_of d k = map_of d' k) \<longrightarrow>
        handle_completions h rt (Inr (JObject d)) = handle_completions h rt (Inr (JObject d'))
      \<and> handle_chat_completions h rt (Inr (JObject d)) =
          handle_chat_completions h rt (Inr (JObject d')))"
proof (intro conjI impI)
  assume a: "handle_completions h rt parsed = JsonResponse st payload"
  from handle_completions_success [OF a] show "st = 200" by blast
  from handle_completions_success [OF a]
  show "\<exists>t. select (Key (lit ''choices'')) payload =
         Some (JList [JObject [(lit ''text'', JString t), (lit ''index'', JInt 0),
                               (lit ''logprobs'', JNull),
                               (lit ''finish_reason'', JString (lit ''length''))]])"
    using completion_choices by blast
next
  assume a: "handle_chat_completions h rt parsed = JsonResponse st payload"
  from handle_chat_completions_success [OF a] show "st = 200" by blast
  from handle_chat_completions_success [OF a]
  show "\<exists>t. select (Key (lit ''choices'')) payload =
         Some (JList [JObject [(lit ''index'', JInt 0),
                               (lit ''message'', JObject
                                  [(lit ''role'', JString (lit ''assistant'')),
                                   (lit ''content'', JString t)]),
                               (lit ''finish_reason'', JString (lit ''length''))]])"
    using chat_completion_choices by blast
next
  assume "\<forall>k. k \<noteq> lit ''n'' \<longrightarrow> map_of d k = map_of d' k"
  then have same: "\<And>k. k \<noteq> lit ''n'' \<Longrightarrow> map_of d k = map_of d' k" by blast
  show "handle_completions h rt (Inr (JObject d)) = handle_completions h rt (Inr (JObject d'))"
    using same by (rule handle_completions_ignores_n)
  show "handle_chat_completions h rt (Inr (JObject d)) =
          handle_chat_completions h rt (Inr (JObject d'))"
    using same by (rule handle_chat_completions_ignores_n)
qed


lemma sample_completion_n:
  "handle_completions OpenAIHandler sample_runtime
     (Inr (JObject [(lit ''prompt'', JString (lit ''hello world'')), (lit ''n'', JInt 3)]))
   = JsonResponse 200
       (completion_response OpenAIHandler sample_runtime (lit ''hello world'') placeholder_text)"
  by (simp add: handle_completions_string dict_get_def lit_def completion_text_def
        OpenAIHandler_def)

theorem one_choice_finish_length_witness:
  "select (Key (lit ''choices''))
     (completion_response OpenAIHandler sample_runtime (lit ''hello world'') placeholder_text)
   = Some (JList [JObject [(lit ''text'', JString placeholder_text), (lit ''index'', JInt 0),
                           (lit ''logprobs'', JNull),
                           (lit ''finish_reason'', JString (lit ''length''))]])
   \<and> select (Key (lit ''choices''))
     (chat_completion_response OpenAIHandler sample_runtime
        (lit ''User: Hi'' @ [10] @ lit ''Assistant:'') placeholder_text)
   = Some (JList [JObject [(lit ''index'', JInt 0),
                           (lit ''message'', JObject
                              [(lit ''role'', JString (lit ''assistant'')),
                               (lit ''content'', JString placeholder_text)]),
                           (lit ''finish_reason'', JString (lit ''length''))]])
   \<and> handle_completions OpenAIHandler sample_runtime
       (Inr (JObject [(lit ''prompt'', JString (lit ''hello world'')), (lit ''n'', JInt 3)]))
     = handle_completions OpenAIHandler sample_runtime
       (Inr (JObject [(lit ''prompt'', JString (lit ''hello world''))]))"
proof -
  let ?d = "[(lit ''prompt'', JString (lit ''hello world'')), (lit ''n'', JInt 3)]"
  let ?d' = "[(lit ''prompt'', JString (lit ''hello world''))]"
  let ?c = "completion_response OpenAIHandler sample_runtime (lit ''hello world'')
              placeholder_text"
  let ?m = "[(lit ''messages'',
        JList [JObject [(lit ''role'', JString (lit ''user'')),
                        (lit ''content'', JString (lit ''Hi''))]])]"
  let ?cc = "chat_completion_response OpenAIHandler sample_runtime
          (lit ''User: Hi'' @ [10] @ lit ''Assistant:'') placeholder_text"
  have same: "\<forall>k. k \<noteq> lit ''n'' \<longrightarrow> map_of ?d k = map_of ?d' k"
    by simp
  from one_choice_finish_length [of OpenAIHandler sample_runtime "Inr (JObject ?d)" 200 ?c ?d ?d']
    sample_completion_n same
  obtain t where t: "select (Key (lit ''choices'')) ?c =
         Some (JList [JObject [(lit ''text'', JString t), (lit ''index'', JInt 0),
                               (lit ''logprobs'', JNull),
                               (lit ''finish_reason'', JString (lit ''length''))]])"
    and n: "handle_completions OpenAIHandler sample_runtime (Inr (JObject ?d))
            = handle_completions OpenAIHandler sample_runtime (Inr (JObject ?d'))"
    by blast
  from one_choice_finish_length [of OpenAIHandler sample_runtime "Inr (JObject ?m)" 200 ?cc]
    sample_chat
  obtain u where u: "select (Key (lit ''choices'')) ?cc =
         Some (JList [JObject [(lit ''index'', JInt 0),
                               (lit ''message'', JObject
                                  [(lit ''role'', JString (lit ''assistant'')),
                                   (lit ''content'', JString u)]),
                               (lit ''finish_reason'', JString (lit ''length''))]])"
    by blast
  from t have "t = placeholder_text"
    by (simp add: completion_choices)
  moreover from u have "u = placeholder_text"
    by (simp add: chat_completion_choices)
  ultimately show ?thesis
    using t u n by simp
qed


section \<open>The generated text\<close>

text \<open>
  Claim C6. Text generation is a stub: with no model runner the completion text of
  both endpoints is the fixed string \<^verbatim>\<open>[Model not loaded] This is a placeholder
  response. Please load a model to get actual completions.\<close>; otherwise it is the fixed
  template around the first 50 characters of the prompt. Neither depends on
  max_tokens, temperature or top_p.
\<close>

theorem generation_is_a_stub:
  "(handle_completions h rt parsed = JsonResponse st payload \<longrightarrow>
      (\<exists>d p. parsed = Inr (JObject d)
         \<and> dict_get d (lit ''prompt'') (JString []) = JString p
         \<and> json_at [Key (lit ''choices''), Index 0, Key (lit ''text'')] payload =
             Some (JString
               (if model_runner h = None
                then lit ''[Model not loaded] This is a placeholder response. Please load a model to get actual completions.''
                else lit ''[Generated response for: '' @ take 50 p @ lit ''...]''))))
   \<and> (handle_chat_completions h rt parsed = JsonResponse st payload \<longrightarrow>
      (\<exists>d p. parsed = Inr (JObject d)
         \<and> messages_to_prompt rt (dict_get d (lit ''messages'') (JList [])) = Inr p
         \<and> json_at [Key (lit ''choices''), Index 0, Key (lit ''message''),
                      Key (lit ''content'')] payload =
             Some (JString
               (if model_runner h = None
                then lit ''[Model not loaded] This is a placeholder response. Please load a model to get actual completions.''
                else lit ''[Generated response for: '' @ take 50 p @ lit ''...]''))))
   \<and> completion_text h p max_tokens temperature top_p =
       (if model_runner h = None
        then lit ''[Model not loaded] This is a placeholder response. Please load a model to get actual completions.''
        else lit ''[Generated response for: '' @ take 50 p @ lit ''...]'')"
proof (intro conjI impI)
  show ct: "\<And>p max_tokens temperature top_p.
      completion_text h p max_tokens temperature top_p =
       (if model_runner h = None
        then lit ''[Model not loaded] This is a placeholder response. Please load a model to get actual completions.''
        else lit ''[Generated response for: '' @ take 50 p @ lit ''...]'')"
    by (simp add: completion_text_def placeholder_text_def generate_text_def)
  {
    assume "handle_completions h rt parsed = JsonResponse st payload"
    then obtain d p t where "parsed = Inr (JObject d)"
      and "dict_get d (lit ''prompt'') (JString []) = JString p"
      and "payload = completion_response h rt p
             (completion_text h p (dict_get d (lit ''max_tokens'') (JInt 100))
                (dict_get d (lit ''temperature'') (JFloat (Finite 1)))
                (dict_get d (lit ''top_p'') (JFloat (Finite 1))))"
      using handle_completions_success by blast
    then show "\<exists>d p. parsed = Inr (JObject d)
         \<and> dict_get d (lit ''prompt'') (JString []) = JString p
         \<and> json_at [Key (lit ''choices''), Index 0, Key (lit ''text'')] payload =
             Some (JString
               (if model_runner h = None
                then lit ''[Model not loaded] This is a placeholder response. Please load a model to get actual completions.''
                else lit ''[Generated response for: '' @ take 50 p @ lit ''...]''))"
      by (rule_tac x = d in exI, rule_tac x = p in exI)
        (simp only: completion_choice_text ct simp_thms)
  }
  {
    assume "handle_chat_completions h rt parsed = JsonResponse st payload"
    then obtain d p where "parsed = Inr (JObject d)"
      and "messages_to_prompt rt (dict_get d (lit ''messages'') (JList [])) = Inr p"
      and "payload = chat_completion_response h rt p
             (completion_text h p (dict_get d (lit ''max_tokens'') (JInt 100))
                (dict_get d (lit ''temperature'') (JFloat (Finite 1)))
                (dict_get d (lit ''top_p'') (JFloat (Finite 1))))"
      using handle_chat_completions_success by blast
    then show "\<exists>d p. parsed = Inr (JObject d)
         \<and> messages_to_prompt rt (dict_get d (lit ''messages'') (JList [])) = Inr p
         \<and> json_at [Key (lit ''choices''), Index 0, Key (lit ''message''),
                      Key (lit ''content'')] payload =
             Some (JString
               (if model_runner h = None
                then lit ''[Model not loaded] This is a placeholder response. Please load a model to get actual completions.''
                else lit ''[Generated response for: '' @ take 50 p @ lit ''...]''))"
      by (rule_tac x = d in exI, rule_tac x = p in exI)
        (simp only: chat_completion_choice_content ct simp_thms)
  }
qed


theorem generation_is_a_stub_witness:
  "json_at [Key (lit ''choices''), Index 0, Key (lit ''text'')]
     (completion_response
        (OpenAIHandler\<lparr>model_runner := Some (ModelRunnerCpp (lit ''/engines/gpt''))\<rparr>)
        sample_runtime (lit ''The benefits of using TensorRT for AI inference include'')
        (generate_text (lit ''The benefits of using TensorRT for AI inference include'')
           (JInt 100) (JFloat (Finite 1)) (JFloat (Finite 1))))
   = Some (JString
       (lit ''[Generated response for: The benefits of using TensorRT for AI inference in...]''))
   \<and> json_at [Key (lit ''choices''), Index 0, Key (lit ''message''), Key (lit ''content'')]
     (chat_completion_response OpenAIHandler sample_runtime
        (lit ''User: Hi'' @ [10] @ lit ''Assistant:'') placeholder_text)
   = Some (JString
       (lit ''[Model not loaded] This is a placeholder response. Please load a model to get actual completions.''))"
proof -
  let ?h = "OpenAIHandler\<lparr>model_runner := Some (ModelRunnerCpp (lit ''/engines/gpt''))\<rparr>"
  let ?p = "lit ''The benefits of using TensorRT for AI inference include''"
  let ?req = "Inr (JObject [(lit ''prompt'', JString ?p)])"
  let ?payload = "completion_response ?h sample_runtime ?p
        (generate_text ?p (JInt 100) (JFloat (Finite 1)) (JFloat (Finite 1)))"
  let ?m = "[(lit ''messages'',
        JList [JObject [(lit ''role'', JString (lit ''user'')),
                        (lit ''content'', JString (lit ''Hi''))]])]"
  let ?cc = "chat_completion_response OpenAIHandler sample_runtime
          (lit ''User: Hi'' @ [10] @ lit ''Assistant:'') placeholder_text"
  have run: "handle_completions ?h sample_runtime ?req = JsonResponse 200 ?payload"
    by (simp add: handle_completions_string dict_get_def lit_def completion_text_def)
  from generation_is_a_stub [of ?h sample_runtime ?req 200 ?payload] run
  obtain d p where d: "?req = Inr (JObject d)"
    and p: "dict_get d (lit ''prompt'') (JString []) = JString p"
    and t: "json_at [Key (lit ''choices''), Index 0, Key (lit ''text'')] ?payload =
             Some (JString
               (if model_runner ?h = None
                then lit ''[Model not loaded] This is a placeholder response. Please load a model to get actual completions.''
                else lit ''[Generated response for: '' @ take 50 p @ lit ''...]''))"
    by blast
  from d have "d = [(lit ''prompt'', JString ?p)]"
    by simp
  with p have "p = ?p"
    by (simp add: dict_get_def)
  moreover have "lit ''[Generated response for: '' @ take 50 ?p @ lit ''...]'' =
      lit ''[Generated response for: The benefits of using TensorRT for AI inference in...]''"
    by (simp add: lit_def)
  ultimately have first: "json_at [Key (lit ''choices''), Index 0, Key (lit ''text'')] ?payload
      = Some (JString
         (lit ''[Generated response for: The benefits of using TensorRT for AI inference in...]''))"
    using t by (simp del: json_at.simps)
  have none: "model_runner OpenAIHandler = None"
    by (simp add: OpenAIHandler_def)
  from generation_is_a_stub [of OpenAIHandler sample_runtime "Inr (JObject ?m)" 200 ?cc]
    sample_chat
  obtain q where "json_at [Key (lit ''choices''), Index 0, Key (lit ''message''),
        Key (lit ''content'')] ?cc
      = Some (JString
          (if model_runner OpenAIHandler = None
           then lit ''[Model not loaded] This is a placeholder response. Please load a model to get actual completions.''
           else lit ''[Generated response for: '' @ take 50 q @ lit ''...]''))"
    by blast
  with none have second: "json_at [Key (lit ''choices''), Index 0, Key (lit ''message''),
        Key (lit ''content'')] ?cc
      = Some (JString
          (lit ''[Model not loaded] This is a placeholder response. Please load a model to get actual completions.''))"
    by (simp del: json_at.simps)
  from first second show ?thesis by (simp only: simp_thms)
qed

section \<open>Omitted parameters\<close>

lemma map_of_setdefault:
  "map_of (setdefault k v d) k' =
     (if k' = k then Some (dict_get d k v) else map_of d k')"
  by (simp add: setdefault_def dict_get_def map_add_def split: option.splits)

lemma dict_get_setdefault:
  "dict_get (setdefault k v d) k' dflt =
     (if k' = k then dict_get d k v else dict_get d k' dflt)"
  by (simp add: dict_get_def map_of_setdefault)

lemma parameter_keys_distinct:
  "lit ''max_tokens'' \<noteq> lit ''temperature''" "lit ''max_tokens'' \<noteq> lit ''top_p''"
  "lit ''temperature'' \<noteq> lit ''top_p''" "lit ''temperature'' \<noteq> lit ''max_tokens''"
  "lit ''top_p'' \<noteq> lit ''max_tokens''" "lit ''top_p'' \<noteq> lit ''temperature''"
  "lit ''n'' \<noteq> lit ''max_tokens''" "lit ''n'' \<noteq> lit ''temperature''"
  "lit ''n'' \<noteq> lit ''top_p''"
  "lit ''prompt'' \<noteq> lit ''max_tokens''" "lit ''prompt'' \<noteq> lit ''temperature''"
  "lit ''prompt'' \<noteq> lit ''top_p''"
  "lit ''messages'' \<noteq> lit ''max_tokens''" "lit ''messages'' \<noteq> lit ''temperature''"
  "lit ''messages'' \<noteq> lit ''top_p''"
  by (simp_all add: lit_def)

lemma with_defaults_lookup:
  "map_of (with_defaults d) (lit ''max_tokens'') = Some (dict_get d (lit ''max_tokens'') (JInt 100))"
  "map_of (with_defaults d) (lit ''temperature'')
     = Some (dict_get d (lit ''temperature'') (JFloat (Finite 1)))"
  "map_of (with_defaults d) (lit ''top_p'') = Some (dict_get d (lit ''top_p'') (JFloat (Finite 1)))"
  "map_of (with_defaults d) (lit ''n'') = Some (dict_get d (lit ''n'') (JInt 1))"
  "map_of (with_defaults d) (lit ''prompt'') = map_of d (lit ''prompt'')"
  "map_of (with_defaults d) (lit ''messages'') = map_of d (lit ''messages'')"
  by (simp_all add: with_defaults_def map_of_setdefault dict_get_setdefault
        parameter_keys_distinct n_is_no_parameter)

lemma with_defaults_params:
  "completion_params (with_defaults d) = completion_params d"
  "chat_params (with_defaults d) = chat_params d"
  by (simp_all add: completion_params_def chat_params_def dict_get_def with_defaults_lookup)

lemma with_defaults_response:
  "handle_completions h rt (Inr (JObject (with_defaults d))) =
     handle_completions h rt (Inr (JObject d))"
  "handle_chat_completions h rt (Inr (JObject (with_defaults d))) =
     handle_chat_completions h rt (Inr (JObject d))"
  by (simp_all add: handle_completions_def completions_try_def handle_chat_completions_def
        chat_completions_try_def with_defaults_params)

lemma prompt_parts_loop_dicts:
  assumes "\<forall>m\<in>set msgs. \<exists>md. m = JObject md"
  shows "\<exists>ps. prompt_parts_loop rt parts msgs = Inr ps"
  using assms
  by (induction msgs arbitrary: parts) (auto simp: Let_def)


text \<open>
  Claim C8. Where a request to POST /v1/completions or POST /v1/chat/completions
  omits max_tokens, temperature, top_p or n, the handler works with the documented
  default (100, 1.0, 1.0, 1), and the answer is the one the request gets with those
  defaults supplied explicitly; the omission raises no error: a request with a
  non-empty string prompt, or with a non-empty list of message objects, is answered
  with 200 whichever of those parameters it omits.
\<close>

theorem omitted_parameters_default:
  "completion_params (with_defaults d) = completion_params d
   \<and> chat_params (with_defaults d) = chat_params d
   \<and> handle_completions h rt (Inr (JObject (with_defaults d))) =
       handle_completions h rt (Inr (JObject d))
   \<and> handle_chat_completions h rt (Inr (JObject (with_defaults d))) =
       handle_chat_completions h rt (Inr (JObject d))
   \<and> (map_of d (lit ''max_tokens'') = None \<longrightarrow>
        map_of (with_defaults d) (lit ''max_tokens'') = Some (JInt 100))
   \<and> (map_of d (lit ''temperature'') = None \<longrightarrow>
        map_of (with_defaults d) (lit ''temperature'') = Some (JFloat (Finite 1)))
   \<and> (map_of d (lit ''top_p'') = None \<longrightarrow>
        map_of (with_defaults d) (lit ''top_p'') = Some (JFloat (Finite 1)))
   \<and> (map_of d (lit ''n'') = None \<longrightarrow>
        map_of (with_defaults d) (lit ''n'') = Some (JInt 1))
   \<and> (completion_params d = (prompt, max_tokens, temperature, top_p, n) \<longrightarrow>
        (map_of d (lit ''max_tokens'') = None \<longrightarrow> max_tokens = JInt 100)
        \<and> (map_of d (lit ''temperature'') = None \<longrightarrow> temperature = JFloat (Finite 1))
        \<and> (map_of d (lit ''top_p'') = None \<longrightarrow> top_p = JFloat (Finite 1))
        \<and> (map_of d (lit ''n'') = None \<longrightarrow> n = JInt 1))
   \<and> (chat_params d = (messages, max_tokens, temperature, top_p) \<longrightarrow>
        (map_of d (lit ''max_tokens'') = None \<longrightarrow> max_tokens = JInt 100)
        \<and> (map_of d (lit ''temperature'') = None \<longrightarrow> temperature = JFloat (Finite 1))
        \<and> (map_of d (lit ''top_p'') = None \<longrightarrow> top_p = JFloat (Finite 1)))
   \<and> (dict_get d (lit ''prompt'') (JString []) = JString p \<and> p \<noteq> [] \<longrightarrow>
        status_of (handle_completions h rt (Inr (JObject d))) = 200)
   \<and> (dict_get d (lit ''messages'') (JList []) = JList msgs \<and> msgs \<noteq> []
        \<and> (\<forall>m\<in>set msgs. \<exists>md. m = JObject md) \<longrightarrow>
        status_of (handle_chat_completions h rt (Inr (JObject d))) = 200)"
proof -
  have supplied:
    "map_of d (lit ''max_tokens'') = None \<longrightarrow>
        map_of (with_defaults d) (lit ''max_tokens'') = Some (JInt 100)"
    "map_of d (lit ''temperature'') = None \<longrightarrow>
        map_of (with_defaults d) (lit ''temperature'') = Some (JFloat (Finite 1))"
    "map_of d (lit ''top_p'') = None \<longrightarrow>
        map_of (with_defaults d) (lit ''top_p'') = Some (JFloat (Finite 1))"
    "map_of d (lit ''n'') = None \<longrightarrow>
        map_of (with_defaults d) (lit ''n'') = Some (JInt 1)"
    by (simp_all add: with_defaults_lookup dict_get_def)
  have locals:
    "completion_params d = (prompt, max_tokens, temperature, top_p, n) \<longrightarrow>
        (map_of d (lit ''max_tokens'') = None \<longrightarrow> max_tokens = JInt 100)
        \<and> (map_of d (lit ''temperature'') = None \<longrightarrow> temperature = JFloat (Finite 1))
        \<and> (map_of d (lit ''top_p'') = None \<longrightarrow> top_p = JFloat (Finite 1))
        \<and> (map_of d (lit ''n'') = None \<longrightarrow> n = JInt 1)"
    by (auto simp: completion_params_def dict_get_def)
  have chat_locals:
    "chat_params d = (messages, max_tokens, temperature, top_p) \<longrightarrow>
        (map_of d (lit ''max_tokens'') = None \<longrightarrow> max_tokens = JInt 100)
        \<and> (map_of d (lit ''temperature'') = None \<longrightarrow> temperature = JFloat (Finite 1))
        \<and> (map_of d (lit ''top_p'') = None \<longrightarrow> top_p = JFloat (Finite 1))"
    by (auto simp: chat_params_def dict_get_def)
  have ok: "dict_get d (lit ''prompt'') (JString []) = JString p \<and> p \<noteq> [] \<longrightarrow>
        status_of (handle_completions h rt (Inr (JObject d))) = 200"
    by (simp add: handle_completions_string)
  have chat_ok: "dict_get d (lit ''messages'') (JList []) = JList msgs \<and> msgs \<noteq> []
        \<and> (\<forall>m\<in>set msgs. \<exists>md. m = JObject md) \<longrightarrow>
        status_of (handle_chat_completions h rt (Inr (JObject d))) = 200"
  proof (intro impI, elim conjE)
    assume m: "dict_get d (lit ''messages'') (JList []) = JList msgs" and ne: "msgs \<noteq> []"
      and dicts: "\<forall>m\<in>set msgs. \<exists>md. m = JObject md"
    from prompt_parts_loop_dicts [OF dicts]
    obtain ps where "prompt_parts_loop rt [] msgs = Inr ps" by blast
    then have "messages_to_prompt rt (JList msgs) = Inr (join [10] (ps @ [lit ''Assistant:'']))"
      by (simp add: messages_to_prompt_def)
    with m ne show "status_of (handle_chat_completions h rt (Inr (JObject d))) = 200"
      by (simp add: handle_chat_completions_prompt)
  qed
  from with_defaults_params [of d] with_defaults_response [of h rt d] supplied locals
    chat_locals ok chat_ok
  show ?thesis by (simp only: simp_thms)
qed


lemma sample_with_defaults:
  "with_defaults [(lit ''prompt'', JString (lit ''hello world''))] =
     [(lit ''prompt'', JString (lit ''hello world'')), (lit ''max_tokens'', JInt 100),
      (lit ''temperature'', JFloat (Finite 1)), (lit ''top_p'', JFloat (Finite 1)),
      (lit ''n'', JInt 1)]"
  by (simp add: with_defaults_def setdefault_def lit_def)

theorem omitted_parameters_default_witness:
  "handle_completions OpenAIHandler sample_runtime
     (Inr (JObject
        [(lit ''prompt'', JString (lit ''hello world'')), (lit ''max_tokens'', JInt 100),
         (lit ''temperature'', JFloat (Finite 1)), (lit ''top_p'', JFloat (Finite 1)),
         (lit ''n'', JInt 1)]))
   = handle_completions OpenAIHandler sample_runtime
       (Inr (JObject [(lit ''prompt'', JString (lit ''hello world''))]))
   \<and> status_of (handle_completions OpenAIHandler sample_runtime
       (Inr (JObject [(lit ''prompt'', JString (lit ''hello world''))]))) = 200
   \<and> completion_params [(lit ''prompt'', JString (lit ''hello world''))] =
       (JString (lit ''hello world''), JInt 100, JFloat (Finite 1), JFloat (Finite 1), JInt 1)
   \<and> status_of (handle_chat_completions OpenAIHandler sample_runtime
       (Inr (JObject [(lit ''messages'',
          JList [JObject [(lit ''role'', JString (lit ''user'')),
                          (lit ''content'', JString (lit ''Hi''))]])]))) = 200"
proof -
  let ?d = "[(lit ''prompt'', JString (lit ''hello world''))]"
  let ?msgs = "[JObject [(lit ''role'', JString (lit ''user'')),
                         (lit ''content'', JString (lit ''Hi''))]]"
  let ?c = "[(lit ''messages'', JList ?msgs)]"
  have omitted: "map_of ?d (lit ''max_tokens'') = None" "map_of ?d (lit ''temperature'') = None"
    "map_of ?d (lit ''top_p'') = None" "map_of ?d (lit ''n'') = None"
    by (simp_all add: lit_def)
  have prompt: "dict_get ?d (lit ''prompt'') (JString []) = JString (lit ''hello world'')
      \<and> lit ''hello world'' \<noteq> []"
    by (simp add: dict_get_def lit_def)
  obtain pr mt te tp n where params: "completion_params ?d = (pr, mt, te, tp, n)"
    by (cases "completion_params ?d") blast
  from params prompt have pr: "pr = JString (lit ''hello world'')"
    by (simp add: completion_params_def)
  have chat: "dict_get ?c (lit ''messages'') (JList []) = JList ?msgs \<and> ?msgs \<noteq> []
        \<and> (\<forall>m\<in>set ?msgs. \<exists>md. m = JObject md)"
    by (simp add: dict_get_def)
  from omitted_parameters_default [where d = ?d and h = OpenAIHandler and rt = sample_runtime
      and prompt = pr and max_tokens = mt and temperature = te and top_p = tp and n = n
      and p = "lit ''hello world''"] omitted prompt params
  have "handle_completions OpenAIHandler sample_runtime (Inr (JObject (with_defaults ?d)))
        = handle_completions OpenAIHandler sample_runtime (Inr (JObject ?d))"
    and "status_of (handle_completions OpenAIHandler sample_runtime (Inr (JObject ?d))) = 200"
    and "mt = JInt 100" and "te = JFloat (Finite 1)" and "tp = JFloat (Finite 1)"
    and "n = JInt 1"
    by blast+
  moreover from omitted_parameters_default [where d = ?c and h = OpenAIHandler
      and rt = sample_runtime and msgs = ?msgs] chat
  have "status_of (handle_chat_completions OpenAIHandler sample_runtime (Inr (JObject ?c)))
        = 200"
    by blast
  ultimately show ?thesis
    using params pr by (simp only: sample_with_defaults simp_thms)
qed

section \<open>The server loop\<close>

lemma serve_forever_unfolded:
  "serve_forever h reqs = (h, map (\<lambda>(rt, req). dispatch h rt req) reqs)"
  by (induction reqs) (auto simp: Let_def)

lemma main_unfolded:
  "main a path_exists reqs =
     (OpenAIHandler\<lparr>model_name := arg_model_name a\<rparr>,
      map (\<lambda>(rt, req). dispatch (OpenAIHandler\<lparr>model_name := arg_model_name a\<rparr>) rt req) reqs)"
  by (simp add: main_def run_server_def serve_forever_unfolded Let_def)

lemma main_response:
  assumes "i < length reqs"
  shows "snd (main a path_exists reqs) ! i =
           dispatch (OpenAIHandler\<lparr>model_name := arg_model_name a\<rparr>)
             (fst (reqs ! i)) (snd (reqs ! i))"
  using assms by (simp add: main_unfolded case_prod_unfold)

lemma post_paths_distinct:
  "lit ''/v1/chat/completions'' \<noteq> lit ''/v1/completions''"
  by (simp add: lit_def)

lemma get_paths_distinct:
  "lit ''/health'' \<noteq> lit ''/v1/models''"
  by (simp add: lit_def)

lemma started_without_runner:
  "model_runner (OpenAIHandler\<lparr>model_name := name\<rparr>) = None"
  by (simp add: OpenAIHandler_def)

text \<open>
  Claim C4. The model runner is \<^verbatim>\<open>None\<close> at startup and no code path assigns it
  (loading is deferred even when the engine directory exists), so whatever the command
  line, the file system and the sequence of requests, the handler state keeps no
  runner, GET /health answers \<^verbatim>\<open>model_loaded: false\<close>, and the text of every successful
  completion of either endpoint is the fixed placeholder: the \<^verbatim>\<open>generate_text\<close> branch is
  never taken.
\<close>

theorem model_never_loaded:
  "model_runner OpenAIHandler = None
   \<and> model_runner (fst (main a path_exists reqs)) = None
   \<and> length (snd (main a path_exists reqs)) = length reqs
   \<and> (i < length reqs \<and> snd (reqs ! i) = GET (lit ''/health'') \<longrightarrow>
        snd (main a path_exists reqs) ! i =
          JsonResponse 200 (JObject [(lit ''status'', JString (lit ''healthy'')),
                                     (lit ''model_loaded'', JBool False)]))
   \<and> (i < length reqs \<and> snd (reqs ! i) = POST (lit ''/v1/completions'') parsed
        \<and> snd (main a path_exists reqs) ! i = JsonResponse st payload \<longrightarrow>
        json_at [Key (lit ''choices''), Index 0, Key (lit ''text'')] payload =
          Some (JString (lit ''[Model not loaded] This is a placeholder response. Please load a model to get actual completions.'')))
   \<and> (i < length reqs \<and> snd (reqs ! i) = POST (lit ''/v1/chat/completions'') parsed
        \<and> snd (main a path_exists reqs) ! i = JsonResponse st payload \<longrightarrow>
        json_at [Key (lit ''choices''), Index 0, Key (lit ''message''), Key (lit ''content'')]
          payload =
          Some (JString (lit ''[Model not loaded] This is a placeholder response. Please load a model to get actual completions.'')))"
proof (intro conjI impI)
  let ?h = "OpenAIHandler\<lparr>model_name := arg_model_name a\<rparr>"
  have none: "model_runner ?h = None"
    by (rule started_without_runner)
  have ct: "\<And>p m t q. completion_text ?h p m t q =
      lit ''[Model not loaded] This is a placeholder response. Please load a model to get actual completions.''"
    by (simp add: completion_text_def none placeholder_text_def)
  show "model_runner OpenAIHandler = None"
    by (simp add: OpenAIHandler_def)
  show "model_runner (fst (main a path_exists reqs)) = None"
    by (simp add: main_unfolded none)
  show "length (snd (main a path_exists reqs)) = length reqs"
    by (simp add: main_unfolded)
  {
    assume "i < length reqs \<and> snd (reqs ! i) = GET (lit ''/health'')"
    then have i: "i < length reqs" and req: "snd (reqs ! i) = GET (lit ''/health'')"
      by blast+
    from main_response [OF i, of a path_exists] req
    have "snd (main a path_exists reqs) ! i = handle_health ?h"
      by (simp add: do_GET_def get_paths_distinct)
    then show "snd (main a path_exists reqs) ! i =
          JsonResponse 200 (JObject [(lit ''status'', JString (lit ''healthy'')),
                                     (lit ''model_loaded'', JBool False)])"
      by (simp add: handle_health_def send_json_response_def none)
  }
  {
    assume a: "i < length reqs \<and> snd (reqs ! i) = POST (lit ''/v1/completions'') parsed
        \<and> snd (main a path_exists reqs) ! i = JsonResponse st payload"
    then have i: "i < length reqs" and req: "snd (reqs ! i) = POST (lit ''/v1/completions'') parsed"
      and resp: "snd (main a path_exists reqs) ! i = JsonResponse st payload"
      by blast+
    from main_response [OF i, of a path_exists] req
    have "snd (main a path_exists reqs) ! i = handle_completions ?h (fst (reqs ! i)) parsed"
      by (simp add: do_POST_def)
    with resp have "handle_completions ?h (fst (reqs ! i)) parsed = JsonResponse st payload"
      by simp
    from handle_completions_success [OF this]
    show "json_at [Key (lit ''choices''), Index 0, Key (lit ''text'')] payload =
          Some (JString (lit ''[Model not loaded] This is a placeholder response. Please load a model to get actual completions.''))"
      by (auto simp: completion_choice_text ct simp del: json_at.simps)
  }
  {
    assume a: "i < length reqs \<and> snd (reqs ! i) = POST (lit ''/v1/chat/completions'') parsed
        \<and> snd (main a path_exists reqs) ! i = JsonResponse st payload"
    then have i: "i < length reqs"
      and req: "snd (reqs ! i) = POST (lit ''/v1/chat/completions'') parsed"
      and resp: "snd (main a path_exists reqs) ! i = JsonResponse st payload"
      by blast+
    from main_response [OF i, of a path_exists] req
    have "snd (main a path_exists reqs) ! i =
        handle_chat_completions ?h (fst (reqs ! i)) parsed"
      by (simp add: do_POST_def post_paths_distinct)
    with resp have "handle_chat_completions ?h (fst (reqs ! i)) parsed = JsonResponse st payload"
      by simp
    from handle_chat_completions_success [OF this]
    show "json_at [Key (lit ''choices''), Index 0, Key (lit ''message''), Key (lit ''content'')]
          payload =
          Some (JString (lit ''[Model not loaded] This is a placeholder response. Please load a model to get actual completions.''))"
      by (auto simp: chat_completion_choice_content ct simp del: json_at.simps)
  }
qed

text \<open>
  An engine directory that exists, then a health check and a completion.
\<close>

theorem model_never_loaded_witness:
  "snd (main (default_args\<lparr>arg_engine_dir := Some (lit ''/engines/gpt'')\<rparr>) (\<lambda>d. True)
         [(sample_runtime, GET (lit ''/health'')),
          (sample_runtime, POST (lit ''/v1/completions'')
             (Inr (JObject [(lit ''prompt'', JString (lit ''hello world''))])))]) ! 0
     = JsonResponse 200 (JObject [(lit ''status'', JString (lit ''healthy'')),
                                  (lit ''model_loaded'', JBool False)])
   \<and> snd (main (default_args\<lparr>arg_engine_dir := Some (lit ''/engines/gpt'')\<rparr>) (\<lambda>d. True)
         [(sample_runtime, GET (lit ''/health'')),
          (sample_runtime, POST (lit ''/v1/completions'')
             (Inr (JObject [(lit ''prompt'', JString (lit ''hello world''))])))]) ! 1
     = JsonResponse 200
         (completion_response OpenAIHandler sample_runtime (lit ''hello world'') placeholder_text)
   \<and> json_at [Key (lit ''choices''), Index 0, Key (lit ''text'')]
         (completion_response OpenAIHandler sample_runtime (lit ''hello world'') placeholder_text)
     = Some (JString (lit ''[Model not loaded] This is a placeholder response. Please load a model to get actual completions.''))"
proof -
  let ?a = "default_args\<lparr>arg_engine_dir := Some (lit ''/engines/gpt'')\<rparr>"
  let ?body = "Inr (JObject [(lit ''prompt'', JString (lit ''hello world''))])"
  let ?reqs = "[(sample_runtime, GET (lit ''/health'')),
                (sample_runtime, POST (lit ''/v1/completions'') ?body)]"
  let ?payload =
    "completion_response OpenAIHandler sample_runtime (lit ''hello world'') placeholder_text"
  have same: "OpenAIHandler\<lparr>model_name := arg_model_name default_args\<rparr> = OpenAIHandler"
    by (simp add: default_args_def OpenAIHandler_def)
  have second: "snd (main ?a (\<lambda>d. True) ?reqs) ! 1 = JsonResponse 200 ?payload"
    by (simp add: main_unfolded same do_POST_def sample_completion)
  have h0: "0 < length ?reqs \<and> snd (?reqs ! 0) = GET (lit ''/health'')"
    by simp
  have h1: "1 < length ?reqs \<and> snd (?reqs ! 1) = POST (lit ''/v1/completions'') ?body
      \<and> snd (main ?a (\<lambda>d. True) ?reqs) ! 1 = JsonResponse 200 ?payload"
    using second by simp
  from model_never_loaded [where a = ?a and path_exists = "\<lambda>d. True" and reqs = ?reqs
      and i = 0] h0
  have first: "snd (main ?a (\<lambda>d. True) ?reqs) ! 0
     = JsonResponse 200 (JObject [(lit ''status'', JString (lit ''healthy'')),
                                  (lit ''model_loaded'', JBool False)])"
    by blast
  from model_never_loaded [where a = ?a and path_exists = "\<lambda>d. True" and reqs = ?reqs
      and i = 1 and parsed = ?body and st = 200 and payload = ?payload] h1
  have third: "json_at [Key (lit ''choices''), Index 0, Key (lit ''text'')] ?payload
     = Some (JString (lit ''[Model not loaded] This is a placeholder response. Please load a model to get actual completions.''))"
    by blast
  from first second third show ?thesis
    by (simp only: simp_thms)
qed

section \<open>Listing the models\<close>

text \<open>
  Claim C7. Every answer to GET /v1/models has the object \<^verbatim>\<open>list\<close> and a data array
  with exactly one entry, whose id and root are the model name configured at startup
  (by default \<^verbatim>\<open>gpt-oss-20b\<close>), with object \<^verbatim>\<open>model\<close>, owned_by \<^verbatim>\<open>tensorrt-llm\<close>, an
  empty permission list and a null parent.
\<close>

theorem models_lists_configured_model:
  "(i < length reqs \<and> reqs ! i = (rt, GET (lit ''/v1/models'')) \<longrightarrow>
      snd (main a path_exists reqs) ! i =
        JsonResponse 200 (JObject
          [(lit ''object'', JString (lit ''list'')),
           (lit ''data'', JList
              [JObject
                 [(lit ''id'', JString (arg_model_name a)),
                  (lit ''object'', JString (lit ''model'')),
                  (lit ''created'', JInt (time_now rt)),
                  (lit ''owned_by'', JString (lit ''tensorrt-llm'')),
                  (lit ''permission'', JList []),
                  (lit ''root'', JString (arg_model_name a)),
                  (lit ''parent'', JNull)]])]))
   \<and> arg_model_name default_args = lit ''gpt-oss-20b''
   \<and> model_name OpenAIHandler = lit ''gpt-oss-20b''"
proof (intro conjI impI)
  assume "i < length reqs \<and> reqs ! i = (rt, GET (lit ''/v1/models''))"
  then have i: "i < length reqs" and req: "reqs ! i = (rt, GET (lit ''/v1/models''))"
    by blast+
  from main_response [OF i, of a path_exists] req
  have "snd (main a path_exists reqs) ! i =
      handle_list_models (OpenAIHandler\<lparr>model_name := arg_model_name a\<rparr>) rt"
    by (simp add: do_GET_def)
  then show "snd (main a path_exists reqs) ! i =
        JsonResponse 200 (JObject
          [(lit ''object'', JString (lit ''list'')),
           (lit ''data'', JList
              [JObject
                 [(lit ''id'', JString (arg_model_name a)),
                  (lit ''object'', JString (lit ''model'')),
                  (lit ''created'', JInt (time_now rt)),
                  (lit ''owned_by'', JString (lit ''tensorrt-llm'')),
                  (lit ''permission'', JList []),
                  (lit ''root'', JString (arg_model_name a)),
                  (lit ''parent'', JNull)]])])"
    by (simp add: handle_list_models_def send_json_response_def)
next
  show "arg_model_name default_args = lit ''gpt-oss-20b''"
    by (simp add: default_args_def)
  show "model_name OpenAIHandler = lit ''gpt-oss-20b''"
    by (simp add: OpenAIHandler_def)
qed


theorem models_lists_configured_model_witness:
  "snd (main (default_args\<lparr>arg_model_name := lit ''my-model''\<rparr>) (\<lambda>d. False)
         [(sample_runtime, GET (lit ''/v1/models''))]) ! 0
   = JsonResponse 200 (JObject
       [(lit ''object'', JString (lit ''list'')),
        (lit ''data'', JList
           [JObject
              [(lit ''id'', JString (lit ''my-model'')),
               (lit ''object'', JString (lit ''model'')),
               (lit ''created'', JInt 0),
               (lit ''owned_by'', JString (lit ''tensorrt-llm'')),
               (lit ''permission'', JList []),
               (lit ''root'', JString (lit ''my-model'')),
               (lit ''parent'', JNull)]])])"
proof -
  let ?a = "default_args\<lparr>arg_model_name := lit ''my-model''\<rparr>"
  let ?reqs = "[(sample_runtime, GET (lit ''/v1/models''))]"
  have h: "0 < length ?reqs \<and> ?reqs ! 0 = (sample_runtime, GET (lit ''/v1/models''))"
    by simp
  have name: "arg_model_name ?a = lit ''my-model''" by simp
  have now: "time_now sample_runtime = 0" by (simp add: sample_runtime_def)
  from models_lists_configured_model [where a = ?a and path_exists = "\<lambda>d. False"
      and reqs = ?reqs and i = 0 and rt = sample_runtime] h
  have "snd (main ?a (\<lambda>d. False) ?reqs) ! 0 =
        JsonResponse 200 (JObject
          [(lit ''object'', JString (lit ''list'')),
           (lit ''data'', JList
              [JObject
                 [(lit ''id'', JString (arg_model_name ?a)),
                  (lit ''object'', JString (lit ''model'')),
                  (lit ''created'', JInt (time_now sample_runtime)),
                  (lit ''owned_by'', JString (lit ''tensorrt-llm'')),
                  (lit ''permission'', JList []),
                  (lit ''root'', JString (arg_model_name ?a)),
                  (lit ''parent'', JNull)]])])"
    by blast
  then show ?thesis
    by (simp only: name now)
qed

end
